theory Spec2Isabelle
  imports Main "HOL-Library.Char_ord" "HOL-Library.List_Lexorder"
begin

section \<open>Go values used by main.go\<close>

text \<open>
  A Go slice is either the nil slice or a (possibly empty) sequence of elements.
  The two are told apart by \<^verbatim>\<open>encoding/json\<close>, so the model keeps them apart.
  Strings are byte sequences, as in Go.
\<close>

datatype 'a slice = NilSlice | Slice "'a list"

fun elems :: "'a slice \<Rightarrow> 'a list" where
  "elems NilSlice = []"
| "elems (Slice xs) = xs"

fun joinWith :: "string \<Rightarrow> string list \<Rightarrow> string" where
  "joinWith sep [] = []"
| "joinWith sep [x] = x"
| "joinWith sep (x # y # ys) = x @ sep @ joinWith sep (y # ys)"

section \<open>strconv\<close>

text \<open>
  \<^verbatim>\<open>strconv.Atoi(s)\<close> on a 64-bit platform: an optional sign, then one or more decimal
  digits, read left to right as \<^verbatim>\<open>ParseUint(s, 10, 64)\<close> does (a character that is no
  digit is a syntax error, a value that leaves 64 bits a range error), then the range
  check of \<^verbatim>\<open>ParseInt\<close> for a signed 64-bit \<^verbatim>\<open>int\<close>.
\<close>

datatype NumError = ErrSyntax | ErrRange

definition isDigit :: "char \<Rightarrow> bool" where
  "isDigit c = (CHR ''0'' \<le> c \<and> c \<le> CHR ''9'')"

definition digitVal :: "char \<Rightarrow> nat" where
  "digitVal c = of_char c - 48"

fun ParseUint_loop :: "string \<Rightarrow> nat \<Rightarrow> NumError + nat" where
  "ParseUint_loop [] n = Inr n"
| "ParseUint_loop (c # cs) n =
     (if \<not> isDigit c then Inl ErrSyntax
      else if n \<ge> (2 ^ 64 - 1) div 10 + 1 then Inl ErrRange
      else if n * 10 + digitVal c > 2 ^ 64 - 1 then Inl ErrRange
      else ParseUint_loop cs (n * 10 + digitVal c))"

definition ParseUint :: "string \<Rightarrow> NumError + nat" where
  "ParseUint s = (if s = [] then Inl ErrSyntax else ParseUint_loop s 0)"

definition Atoi :: "string \<Rightarrow> NumError + int" where
  "Atoi s =
     (if s = [] then Inl ErrSyntax
      else
        let neg = (hd s = CHR ''-'');
            s' = (if hd s = CHR ''+'' \<or> hd s = CHR ''-'' then tl s else s)
        in case ParseUint s' of
             Inl e \<Rightarrow> Inl e
           | Inr un \<Rightarrow>
               if \<not> neg \<and> un \<ge> 2 ^ 63 then Inl ErrRange
               else if neg \<and> un > 2 ^ 63 then Inl ErrRange
               else Inr (if neg then - int un else int un))"

fun formatBits :: "nat \<Rightarrow> string" where
  "formatBits n =
     (if n < 10 then [''0123456789'' ! n]
      else formatBits (n div 10) @ [''0123456789'' ! (n mod 10)])"

declare formatBits.simps [simp del]

definition FormatInt :: "int \<Rightarrow> string" where
  "FormatInt i = (if i < 0 then CHR ''-'' # formatBits (nat (- i)) else formatBits (nat i))"

section \<open>encoding/json: Marshal of string and int slices\<close>

text \<open>
  \<^verbatim>\<open>json.Marshal\<close> escapes HTML characters. A byte below \<^verbatim>\<open>0x80\<close> is copied when it is in
  the table \<^verbatim>\<open>htmlSafeSet\<close> (every byte from \<^verbatim>\<open>0x20\<close> on but the double quote, the
  backslash and the three characters \<^verbatim>\<open>& < >\<close>), and escaped otherwise. The short
  escapes of backspace and form feed are those of Go 1.22 and later; earlier releases
  write these two bytes in the \<^verbatim>\<open>u00XX\<close> form.
\<close>

definition backslash :: char where
  "backslash = CHR 0x5C"

definition dquote :: char where
  "dquote = CHR 0x22"

definition htmlSafe :: "char \<Rightarrow> bool" where
  "htmlSafe b =
     (CHR 0x20 \<le> b \<and> b < CHR 0x80 \<and> b \<noteq> dquote \<and> b \<noteq> backslash
        \<and> b \<noteq> CHR ''&'' \<and> b \<noteq> CHR ''<'' \<and> b \<noteq> CHR ''>'')"

definition json_hex :: string where
  "json_hex = ''0123456789abcdef''"

definition escapeByte :: "char \<Rightarrow> string" where
  "escapeByte b =
     (if b = backslash \<or> b = dquote then [backslash, b]
      else if b = CHR 0x08 then [backslash, CHR ''b'']
      else if b = CHR 0x0C then [backslash, CHR ''f'']
      else if b = CHR 0x0A then [backslash, CHR ''n'']
      else if b = CHR 0x0D then [backslash, CHR ''r'']
      else if b = CHR 0x09 then [backslash, CHR ''t'']
      else [backslash, CHR ''u'', CHR ''0'', CHR ''0'',
            json_hex ! (of_char b div 16), json_hex ! (of_char b mod 16)])"

text \<open>
  \<^verbatim>\<open>utf8.DecodeRuneInString\<close>, reduced to what the encoder reads from it: the size of
  the valid multi-byte encoding at the head of the string, or 0 where the decoder
  answers \<^verbatim>\<open>(RuneError, 1)\<close>. The first byte selects the size and the range accepted
  for the second byte; every later byte is a continuation byte.
\<close>

definition contByte :: "char \<Rightarrow> bool" where
  "contByte b = (CHR 0x80 \<le> b \<and> b \<le> CHR 0xBF)"

definition acceptRange :: "char \<Rightarrow> char \<Rightarrow> nat \<Rightarrow> string \<Rightarrow> nat" where
  "acceptRange lo hi sz rest =
     (case take (sz - 1) rest of
        [] \<Rightarrow> 0
      | s1 # more \<Rightarrow>
          if length more = sz - 2 \<and> lo \<le> s1 \<and> s1 \<le> hi \<and> list_all contByte more
          then sz else 0)"

definition runeSize :: "string \<Rightarrow> nat" where
  "runeSize s =
     (case s of
        [] \<Rightarrow> 0
      | s0 # rest \<Rightarrow>
          if CHR 0xC2 \<le> s0 \<and> s0 \<le> CHR 0xDF then acceptRange (CHR 0x80) (CHR 0xBF) 2 rest
          else if s0 = CHR 0xE0 then acceptRange (CHR 0xA0) (CHR 0xBF) 3 rest
          else if CHR 0xE1 \<le> s0 \<and> s0 \<le> CHR 0xEC then acceptRange (CHR 0x80) (CHR 0xBF) 3 rest
          else if s0 = CHR 0xED then acceptRange (CHR 0x80) (CHR 0x9F) 3 rest
          else if CHR 0xEE \<le> s0 \<and> s0 \<le> CHR 0xEF then acceptRange (CHR 0x80) (CHR 0xBF) 3 rest
          else if s0 = CHR 0xF0 then acceptRange (CHR 0x90) (CHR 0xBF) 4 rest
          else if CHR 0xF1 \<le> s0 \<and> s0 \<le> CHR 0xF3 then acceptRange (CHR 0x80) (CHR 0xBF) 4 rest
          else if s0 = CHR 0xF4 then acceptRange (CHR 0x80) (CHR 0x8F) 4 rest
          else 0)"

text \<open>
  The body of \<^verbatim>\<open>appendString\<close> between the two quotes. An invalid byte becomes
  the six characters of the escape of U+FFFD and one byte is consumed; U+2028 and
  U+2029 are escaped; every other multi-byte rune is copied.
\<close>

function appendString_loop :: "string \<Rightarrow> string" where
  "appendString_loop [] = []"
| "appendString_loop (b # bs) =
     (if b < CHR 0x80 then
        (if htmlSafe b then [b] else escapeByte b) @ appendString_loop bs
      else if runeSize (b # bs) = 0 then
        (backslash # ''ufffd'') @ appendString_loop bs
      else if take 3 (b # bs) = [CHR 0xE2, CHR 0x80, CHR 0xA8] then
        (backslash # ''u2028'') @ appendString_loop (drop 2 bs)
      else if take 3 (b # bs) = [CHR 0xE2, CHR 0x80, CHR 0xA9] then
        (backslash # ''u2029'') @ appendString_loop (drop 2 bs)
      else take (runeSize (b # bs)) (b # bs) @ appendString_loop (drop (runeSize (b # bs) - 1) bs))"
  by pat_completeness auto
termination
  by (relation "measure length") auto

definition appendString :: "string \<Rightarrow> string" where
  "appendString s = dquote # appendString_loop s @ [dquote]"

text \<open>
  The slice encoder writes \<^verbatim>\<open>null\<close> for a nil slice and a bracketed, comma-separated
  array otherwise. For elements that are strings or ints no encoder returns an error,
  so \<^verbatim>\<open>Marshal\<close> always answers with bytes; the result type keeps the error side that
  the handlers test.
\<close>

definition encodeArray :: "('a \<Rightarrow> string) \<Rightarrow> 'a slice \<Rightarrow> string" where
  "encodeArray enc v =
     (case v of
        NilSlice \<Rightarrow> ''null''
      | Slice xs \<Rightarrow> ''['' @ joinWith '','' (map enc xs) @ '']'')"

definition Marshal_strings :: "string slice \<Rightarrow> string + string" where
  "Marshal_strings v = Inr (encodeArray appendString v)"

definition Marshal_ints :: "int slice \<Rightarrow> string + string" where
  "Marshal_ints v = Inr (encodeArray FormatInt v)"

section \<open>net/http: headers, the response writer, http.Error\<close>

type_synonym Header = "(string \<times> string) list"

fun Header_Set :: "string \<Rightarrow> string \<Rightarrow> Header \<Rightarrow> Header" where
  "Header_Set k v [] = [(k, v)]"
| "Header_Set k v ((k', v') # h) =
     (if k' = k then (k, v) # h else (k', v') # Header_Set k v h)"

definition Header_Get :: "string \<Rightarrow> Header \<Rightarrow> string" where
  "Header_Get k h = (case map_of h k of None \<Rightarrow> [] | Some v \<Rightarrow> v)"

definition Header_Del :: "string \<Rightarrow> Header \<Rightarrow> Header" where
  "Header_Del k h = filter (\<lambda>kv. fst kv \<noteq> k) h"

text \<open>
  The response writer of one request. \<open>header\<close> is the map behind \<^verbatim>\<open>w.Header()\<close>.
  The first \<^verbatim>\<open>WriteHeader\<close> fixes the status and sends the headers as they are at that
  moment (\<open>sent\<close>); a later change of \<open>header\<close> or a second \<^verbatim>\<open>WriteHeader\<close> does not
  reach the client. A \<^verbatim>\<open>Write\<close> before any \<^verbatim>\<open>WriteHeader\<close> sends status 200 first.
  \<open>body\<close> is what the handler has written. The content type that the server guesses
  for a response without a Content-Type header is not modelled: every path of main.go
  that writes a body sets the header first.
\<close>

record ResponseWriter =
  header :: Header
  wroteHeader :: bool
  status :: nat
  sent :: Header
  body :: string

definition newResponseWriter :: ResponseWriter where
  "newResponseWriter = \<lparr>header = [], wroteHeader = False, status = 0, sent = [], body = []\<rparr>"

definition WriteHeader :: "nat \<Rightarrow> ResponseWriter \<Rightarrow> ResponseWriter" where
  "WriteHeader code w =
     (if wroteHeader w then w
      else w\<lparr>wroteHeader := True, status := code, sent := header w\<rparr>)"

definition Write :: "string \<Rightarrow> ResponseWriter \<Rightarrow> ResponseWriter" where
  "Write bs w =
     (let w' = (if wroteHeader w then w else WriteHeader 200 w)
      in w'\<lparr>body := body w' @ bs\<rparr>)"

definition setHeader :: "string \<Rightarrow> string \<Rightarrow> ResponseWriter \<Rightarrow> ResponseWriter" where
  "setHeader k v w = w\<lparr>header := Header_Set k v (header w)\<rparr>"

text \<open>
  \<^verbatim>\<open>http.Error(w, error, code)\<close> deletes Content-Length, sets the content type to plain
  text and the nosniff option, writes the status and prints the message with
  \<^verbatim>\<open>fmt.Fprintln\<close>, that is, followed by a newline.
\<close>

definition http_Error :: "string \<Rightarrow> nat \<Rightarrow> ResponseWriter \<Rightarrow> ResponseWriter" where
  "http_Error err code w =
     Write (err @ ''\<newline>'')
       (WriteHeader code
         (setHeader ''X-Content-Type-Options'' ''nosniff''
           (setHeader ''Content-Type'' ''text/plain; charset=utf-8''
             (w\<lparr>header := Header_Del ''Content-Length'' (header w)\<rparr>))))"

text \<open>
  The part of a request the program reads: the method, the path, the query of the URL as
  \<^verbatim>\<open>r.URL.Query()\<close> parses it (the pairs in the order they appear) and the context.
  \<^verbatim>\<open>Values.Get\<close> answers the first value of a key, or the empty string.
\<close>

datatype Context = Ctx nat

record Request =
  Method :: string
  Path :: string
  Query :: "(string \<times> string) list"
  Context :: Context

definition Values_Get :: "string \<Rightarrow> (string \<times> string) list \<Rightarrow> string" where
  "Values_Get key vs = (case map_of vs key of None \<Rightarrow> [] | Some v \<Rightarrow> v)"

section \<open>External collaborators and the events of a request\<close>

text \<open>
  Package \<^verbatim>\<open>db\<close> is an external collaborator: its three query functions are
  parameters of the model.
\<close>

record DB =
  GetFreeClass :: "int \<Rightarrow> string \<Rightarrow> string slice"
  GetFreeSlot :: "string \<Rightarrow> string \<Rightarrow> int slice"
  GetTimetableByDay :: "string \<Rightarrow> string \<Rightarrow> string slice"

text \<open>
  The values of package \<^verbatim>\<open>oauth2\<close> that main.go touches, and
  \<^verbatim>\<open>microsoft.AzureADEndpoint\<close>, which maps the empty tenant to \<^verbatim>\<open>common\<close>.
\<close>

record oauth2_Endpoint =
  AuthURL :: string
  TokenURL :: string

record oauth2_Config =
  ClientID :: string
  ClientSecret :: string
  RedirectURL :: string
  Scopes :: "string slice"
  Endpoint :: oauth2_Endpoint

record oauth2_Token =
  AccessToken :: string
  TokenType :: string
  RefreshToken :: string

definition AzureADEndpoint :: "string \<Rightarrow> oauth2_Endpoint" where
  "AzureADEndpoint tenant =
     (let tenant' = (if tenant = [] then ''common'' else tenant)
      in \<lparr>AuthURL = ''https://login.microsoftonline.com/'' @ tenant' @ ''/oauth2/v2.0/authorize'',
          TokenURL = ''https://login.microsoftonline.com/'' @ tenant' @ ''/oauth2/v2.0/token''\<rparr>)"

text \<open>
  An outbound request of \<^verbatim>\<open>http.Client\<close> and the response to it. \<open>Body\<close> is what
  \<^verbatim>\<open>ioutil.ReadAll(resp.Body)\<close> answers: the bytes, or the text of a read error.
\<close>

record ClientRequest =
  reqMethod :: string
  reqURL :: string
  reqHeader :: Header

record ClientResponse =
  StatusCode :: nat
  Status :: string
  Body :: "string + string"

text \<open>
  The network as the program sees it. \<open>Exchange\<close> is
  \<^verbatim>\<open>oauthConfig.Exchange(ctx, code)\<close>: a token, or the text of the error. \<open>Do\<close> is
  \<^verbatim>\<open>client.Do(req)\<close>: a response, or the text of a transport error, in which case no
  response of the provider exists. \<open>parseErr\<close>, \<open>parsedHost\<close> and \<open>absolutePath\<close> are
  the parts of package \<^verbatim>\<open>net/url\<close> that stay abstract: the error \<^verbatim>\<open>url.Parse\<close> reports
  for a raw URL if any, the host it finds, and the path \<^verbatim>\<open>http.Redirect\<close> builds for a
  relative target from the path of the request.
\<close>

record Net =
  Exchange :: "oauth2_Config \<Rightarrow> Context \<Rightarrow> string \<Rightarrow> string + oauth2_Token"
  Do :: "ClientRequest \<Rightarrow> string + ClientResponse"
  parseErr :: "string \<Rightarrow> string option"
  parsedHost :: "string \<Rightarrow> string"
  absolutePath :: "string \<Rightarrow> string \<Rightarrow> string"

text \<open>
  What a handler does beyond writing its response, in the order of the calls.
\<close>

datatype event =
    CallGetFreeClass int string
  | CallGetFreeSlot string string
  | CallGetTimetableByDay string string
  | TokenExchange Context string
  | GraphRequest ClientRequest
  | LogPrintln string

section \<open>The three db handlers\<close>

definition freeClassHandler :: "DB \<Rightarrow> Request \<Rightarrow> ResponseWriter \<Rightarrow> ResponseWriter \<times> event list" where
  "freeClassHandler db r w =
     (let slotStr = Values_Get ''slot'' (Query r);
          day = Values_Get ''day'' (Query r)
      in case Atoi slotStr of
           Inl err \<Rightarrow> (http_Error ''Invalid slot value'' 400 w, [])
         | Inr slot \<Rightarrow>
             (let classroom = GetFreeClass db slot day
              in case Marshal_strings classroom of
                   Inl err \<Rightarrow> (http_Error err 500 w, [CallGetFreeClass slot day])
                 | Inr jsonResponse \<Rightarrow>
                     (Write jsonResponse (setHeader ''Content-Type'' ''application/json'' w),
                      [CallGetFreeClass slot day])))"

definition freeSlotHandler :: "DB \<Rightarrow> Request \<Rightarrow> ResponseWriter \<Rightarrow> ResponseWriter \<times> event list" where
  "freeSlotHandler db r w =
     (let class = Values_Get ''class'' (Query r);
          day = Values_Get ''day'' (Query r);
          slot = GetFreeSlot db class day
      in case Marshal_ints slot of
           Inl err \<Rightarrow> (http_Error err 500 w, [CallGetFreeSlot class day])
         | Inr jsonResponse \<Rightarrow>
             (Write jsonResponse (setHeader ''Content-Type'' ''application/json'' w),
              [CallGetFreeSlot class day]))"

definition dayTimetableHandler :: "DB \<Rightarrow> Request \<Rightarrow> ResponseWriter \<Rightarrow> ResponseWriter \<times> event list" where
  "dayTimetableHandler db r w =
     (let class = Values_Get ''class'' (Query r);
          day = Values_Get ''day'' (Query r);
          subject = GetTimetableByDay db class day
      in case Marshal_strings subject of
           Inl err \<Rightarrow> (http_Error err 500 w, [CallGetTimetableByDay class day])
         | Inr jsonResponse \<Rightarrow>
             (Write jsonResponse (setHeader ''Content-Type'' ''application/json'' w),
              [CallGetTimetableByDay class day]))"

section \<open>The OAuth exchange\<close>

text \<open>
  \<^verbatim>\<open>url.Parse\<close> cuts the fragment off and reads the scheme with \<^verbatim>\<open>getScheme\<close>: letters,
  and after the first character digits and \<^verbatim>\<open>+ - .\<close>, up to a colon; any other
  character ends the search with no scheme, and a colon in the first place is an error.
\<close>

definition isLetter :: "char \<Rightarrow> bool" where
  "isLetter c = ((CHR ''a'' \<le> c \<and> c \<le> CHR ''z'') \<or> (CHR ''A'' \<le> c \<and> c \<le> CHR ''Z''))"

fun getScheme_loop :: "nat \<Rightarrow> string \<Rightarrow> string \<Rightarrow> string option" where
  "getScheme_loop i rawURL [] = Some []"
| "getScheme_loop i rawURL (c # cs) =
     (if isLetter c then getScheme_loop (Suc i) rawURL cs
      else if isDigit c \<or> c = CHR ''+'' \<or> c = CHR ''-'' \<or> c = CHR ''.'' then
        (if i = 0 then Some [] else getScheme_loop (Suc i) rawURL cs)
      else if c = CHR '':'' then
        (if i = 0 then None else Some (take i rawURL))
      else Some [])"

definition getScheme :: "string \<Rightarrow> string option" where
  "getScheme rawURL = getScheme_loop 0 rawURL rawURL"

definition toLower :: "char \<Rightarrow> char" where
  "toLower c = (if CHR ''A'' \<le> c \<and> c \<le> CHR ''Z'' then char_of (of_char c + (32::nat)) else c)"

record URL =
  Scheme :: string
  Host :: string

definition url_Parse :: "Net \<Rightarrow> string \<Rightarrow> string + URL" where
  "url_Parse net rawURL =
     (case parseErr net rawURL of
        Some err \<Rightarrow> Inl err
      | None \<Rightarrow>
          (case getScheme (takeWhile (\<lambda>c. c \<noteq> CHR ''#'') rawURL) of
             None \<Rightarrow> Inl ''missing protocol scheme''
           | Some scheme \<Rightarrow> Inr \<lparr>Scheme = map toLower scheme, Host = parsedHost net rawURL\<rparr>))"

text \<open>
  \<^verbatim>\<open>http.NewRequest(method, url, nil)\<close> fails where the URL does not parse. Its check of
  the method is left out: the only method main.go passes is the constant \<^verbatim>\<open>GET\<close>.
\<close>

definition NewRequest :: "Net \<Rightarrow> string \<Rightarrow> string \<Rightarrow> string + ClientRequest" where
  "NewRequest net method url =
     (case url_Parse net url of
        Inl err \<Rightarrow> Inl err
      | Inr u \<Rightarrow> Inr \<lparr>reqMethod = method, reqURL = url, reqHeader = []\<rparr>)"

definition requestGraphAPI :: "Net \<Rightarrow> string \<Rightarrow> string \<Rightarrow> (string + string) \<times> event list" where
  "requestGraphAPI net accessToken endpoint =
     (let url = ''https://graph.microsoft.com/v1.0/'' @ endpoint
      in case NewRequest net ''GET'' url of
           Inl err \<Rightarrow> (Inl err, [])
         | Inr req0 \<Rightarrow>
             (let req = req0\<lparr>reqHeader :=
                          Header_Set ''Accept'' ''application/json''
                            (Header_Set ''Authorization'' (''Bearer '' @ accessToken) (reqHeader req0))\<rparr>
              in case Do net req of
                   Inl err \<Rightarrow> (Inl err, [GraphRequest req])
                 | Inr resp \<Rightarrow>
                     if StatusCode resp \<noteq> 200 then
                       (Inl (''unexpected response status: '' @ Status resp), [GraphRequest req])
                     else
                       (case Body resp of
                          Inl err \<Rightarrow> (Inl err, [GraphRequest req])
                        | Inr bytes \<Rightarrow> (Inr bytes, [GraphRequest req]))))"

text \<open>
  \<^verbatim>\<open>log.Println(a, b)\<close> prints its operands separated by a space.
\<close>

definition textPlain :: "ResponseWriter \<Rightarrow> ResponseWriter" where
  "textPlain w = setHeader ''Content-Type'' ''text/plain; charset=utf-8'' w"

definition oauthExchangeHandler ::
    "oauth2_Config \<Rightarrow> Net \<Rightarrow> Request \<Rightarrow> ResponseWriter \<Rightarrow> ResponseWriter \<times> event list" where
  "oauthExchangeHandler oauthConfig net r w =
     (let code = Values_Get ''code'' (Query r);
          ev0 = [TokenExchange (Context r) code]
      in case Exchange net oauthConfig (Context r) code of
           Inl err \<Rightarrow>
             (Write err (WriteHeader 400 (textPlain w)),
              ev0 @ [LogPrintln (''Error while exchanging authorization code '' @ err)])
         | Inr token \<Rightarrow>
             (let (res1, ev1) = requestGraphAPI net (AccessToken token) ''me''
              in case res1 of
                   Inl err \<Rightarrow>
                     (Write err (WriteHeader 403 (textPlain w)),
                      ev0 @ ev1 @ [LogPrintln (''Error getting user profile '' @ err)])
                 | Inr userProfileJSON \<Rightarrow>
                     (let (res2, ev2) = requestGraphAPI net (AccessToken token) ''organization''
                      in case res2 of
                           Inl err \<Rightarrow>
                             (Write err (WriteHeader 403 (textPlain w)),
                              ev0 @ ev1 @ ev2 @ [LogPrintln (''Error getting user organization '' @ err)])
                         | Inr userOrgJSON \<Rightarrow>
                             (Write userOrgJSON
                               (Write ''\<newline>''
                                 (Write userProfileJSON
                                   (WriteHeader 200
                                     (setHeader ''Content-Type'' ''application/json'' w)))),
                              ev0 @ ev1 @ ev2))))"

section \<open>The OAuth login redirect\<close>

text \<open>
  \<^verbatim>\<open>url.QueryEscape\<close>: letters, digits and \<^verbatim>\<open>- _ . ~\<close> are kept, a space becomes
  \<^verbatim>\<open>+\<close>, every other byte is written as a percent sign and two upper-case hex digits.
  \<^verbatim>\<open>Values.Encode\<close> writes the pairs sorted by key, joined by \<^verbatim>\<open>&\<close>.
\<close>

definition unreserved :: "char \<Rightarrow> bool" where
  "unreserved c =
     (isLetter c \<or> isDigit c \<or> c = CHR ''-'' \<or> c = CHR ''_'' \<or> c = CHR ''.'' \<or> c = CHR ''~'')"

definition upperhex :: string where
  "upperhex = ''0123456789ABCDEF''"

definition escapeQueryByte :: "char \<Rightarrow> string" where
  "escapeQueryByte c =
     (if unreserved c then [c]
      else if c = CHR '' '' then ''+''
      else [CHR ''%'', upperhex ! (of_char c div 16), upperhex ! (of_char c mod 16)])"

definition QueryEscape :: "string \<Rightarrow> string" where
  "QueryEscape s = concat (map escapeQueryByte s)"

definition Values_Set :: "string \<Rightarrow> string \<Rightarrow> (string \<times> string) list \<Rightarrow> (string \<times> string) list" where
  "Values_Set k v vs = Header_Set k v vs"

definition Values_Encode :: "(string \<times> string) list \<Rightarrow> string" where
  "Values_Encode vs =
     joinWith ''&'' (map (\<lambda>kv. QueryEscape (fst kv) @ ''='' @ QueryEscape (snd kv)) (sort_key fst vs))"

text \<open>
  \<^verbatim>\<open>Config.AuthCodeURL(state, opts...)\<close>; \<open>authValues\<close> is its local variable
  \<^verbatim>\<open>v\<close>, the query values before they are encoded. Each option of main.go is a
  \<^verbatim>\<open>SetAuthURLParam(key, value)\<close>, given here as the pair; \<^verbatim>\<open>oauth2.AccessTypeOnline\<close> is
  the pair \<^verbatim>\<open>access_type, online\<close>.
\<close>

definition authValues :: "oauth2_Config \<Rightarrow> string \<Rightarrow> (string \<times> string) list \<Rightarrow> (string \<times> string) list" where
  "authValues c state opts =
     (let v0 = [(''response_type'', ''code''), (''client_id'', ClientID c)];
          v1 = (if RedirectURL c \<noteq> [] then Values_Set ''redirect_uri'' (RedirectURL c) v0 else v0);
          v2 = (if length (elems (Scopes c)) > 0
                then Values_Set ''scope'' (joinWith '' '' (elems (Scopes c))) v1 else v1);
          v3 = (if state \<noteq> [] then Values_Set ''state'' state v2 else v2)
      in fold (\<lambda>kv v. Values_Set (fst kv) (snd kv) v) opts v3)"

definition AuthCodeURL :: "oauth2_Config \<Rightarrow> string \<Rightarrow> (string \<times> string) list \<Rightarrow> string" where
  "AuthCodeURL c state opts =
     AuthURL (Endpoint c)
       @ (if CHR ''?'' \<in> set (AuthURL (Endpoint c)) then ''&'' else ''?'')
       @ Values_Encode (authValues c state opts)"

text \<open>
  \<^verbatim>\<open>http.Redirect(w, r, url, code)\<close>. A target that parses with neither scheme nor host
  is made absolute from the path of the request. The Location header is the target with
  every byte from \<^verbatim>\<open>0x80\<close> on written as a percent sign and two lower-case hex digits.
  When no content type was set before, a GET or HEAD request gets the HTML content
  type and a GET request a short HTML body, printed with \<^verbatim>\<open>fmt.Fprintln\<close>.
  \<open>StatusText\<close> is given for the status codes that occur in main.go.
\<close>

definition hexEscapeByte :: "char \<Rightarrow> string" where
  "hexEscapeByte c =
     (if c < CHR 0x80 then [c]
      else [CHR ''%'', json_hex ! (of_char c div 16), json_hex ! (of_char c mod 16)])"

definition hexEscapeNonASCII :: "string \<Rightarrow> string" where
  "hexEscapeNonASCII s = concat (map hexEscapeByte s)"

definition htmlEscapeByte :: "char \<Rightarrow> string" where
  "htmlEscapeByte c =
     (if c = CHR ''&'' then ''&amp;''
      else if c = CHR ''<'' then ''&lt;''
      else if c = CHR ''>'' then ''&gt;''
      else if c = dquote then ''&#34;''
      else if c = CHR 0x27 then ''&#39;''
      else [c])"

definition htmlEscape :: "string \<Rightarrow> string" where
  "htmlEscape s = concat (map htmlEscapeByte s)"

definition StatusText :: "nat \<Rightarrow> string" where
  "StatusText code =
     (if code = 200 then ''OK''
      else if code = 302 then ''Found''
      else if code = 400 then ''Bad Request''
      else if code = 403 then ''Forbidden''
      else if code = 404 then ''Not Found''
      else if code = 500 then ''Internal Server Error''
      else [])"

definition http_Redirect :: "Net \<Rightarrow> Request \<Rightarrow> string \<Rightarrow> nat \<Rightarrow> ResponseWriter \<Rightarrow> ResponseWriter" where
  "http_Redirect net r url code w =
     (let url' = (case url_Parse net url of
                    Inl err \<Rightarrow> url
                  | Inr u \<Rightarrow> if Scheme u = [] \<and> Host u = [] then absolutePath net (Path r) url else url);
          hadCT = (map_of (header w) ''Content-Type'' \<noteq> None);
          w1 = setHeader ''Location'' (hexEscapeNonASCII url') w;
          w2 = (if \<not> hadCT \<and> (Method r = ''GET'' \<or> Method r = ''HEAD'')
                then setHeader ''Content-Type'' ''text/html; charset=utf-8'' w1 else w1);
          w3 = WriteHeader code w2
      in if \<not> hadCT \<and> Method r = ''GET''
         then Write (''<a href='' @ [dquote] @ htmlEscape url' @ [dquote] @ ''>'' @ StatusText code
                       @ ''</a>.\<newline>\<newline>'') w3
         else w3)"

text \<open>
  The random source. \<open>Seed s k\<close> is the value the generator seeded with \<open>s\<close> hands to
  the \<open>k\<close>-th call of \<^verbatim>\<open>rand.Intn\<close> before the reduction to the requested range, so
  that \<^verbatim>\<open>rand.Intn(n)\<close> is that value modulo \<open>n\<close> and lies in the range the library
  promises. \<open>UnixNano\<close> is the clock reading of the call.
\<close>

record Rand =
  UnixNano :: int
  Seed :: "int \<Rightarrow> nat \<Rightarrow> nat"

definition rand_Intn :: "(nat \<Rightarrow> nat) \<Rightarrow> nat \<Rightarrow> nat \<Rightarrow> nat" where
  "rand_Intn src k n = src k mod n"

datatype panic = Panic string

definition charset :: string where
  "charset = ''abcdefghijklmnopqrstuvwxyzABCDEFGHIJKLMNOPQRSTUVWXYZ0123456789''"

function generateRandomString_loop :: "(nat \<Rightarrow> nat) \<Rightarrow> nat \<Rightarrow> nat \<Rightarrow> string \<Rightarrow> string" where
  "generateRandomString_loop src len i randomString =
     (if i < len
      then generateRandomString_loop src len (Suc i)
             (randomString[i := charset ! rand_Intn src i (length charset)])
      else randomString)"
  by pat_completeness auto
termination
  by (relation "measure (\<lambda>(src, len, i, randomString). len - i)") auto

declare generateRandomString_loop.simps [simp del]

definition generateRandomString :: "(nat \<Rightarrow> nat) \<Rightarrow> int \<Rightarrow> panic + string" where
  "generateRandomString src len =
     (if len < 0 then Inl (Panic ''makeslice: len out of range'')
      else Inr (generateRandomString_loop src (nat len) 0 (replicate (nat len) (CHR 0x00))))"

definition oauthLoginHandler ::
    "oauth2_Config \<Rightarrow> Net \<Rightarrow> Rand \<Rightarrow> Request \<Rightarrow> ResponseWriter \<Rightarrow> panic + ResponseWriter" where
  "oauthLoginHandler oauthConfig net rnd r w =
     (case generateRandomString (Seed rnd (UnixNano rnd)) 16 of
        Inl p \<Rightarrow> Inl p
      | Inr state \<Rightarrow>
          Inr (http_Redirect net r
                 (AuthCodeURL oauthConfig state
                    [(''access_type'', ''online''), (''prompt'', ''select_account'')])
                 302 w))"

section \<open>Startup and the router\<close>

text \<open>
  \<^verbatim>\<open>init\<close> reads the configuration file and unmarshals it into \<^verbatim>\<open>oauthJSONRepr\<close>.
  The file system, \<^verbatim>\<open>json.Unmarshal\<close> into that struct and the binding of the port are
  parameters. \<^verbatim>\<open>log.Fatal\<close> prints its operands (no space is added next to a string
  operand) and ends the process with status 1.
\<close>

record oauthJSONRepr =
  jsonClientID :: string
  jsonClientSecret :: string
  jsonRedirectURL :: string
  jsonScopes :: "string slice"
  jsonTenant :: string

record Startup =
  ReadFile :: "string \<Rightarrow> string + string"
  Unmarshal :: "string \<Rightarrow> string + oauthJSONRepr"
  Listen :: "string \<Rightarrow> string option"

record Globals =
  oauthConfig :: "oauth2_Config option"

datatype 'a fatal = Fatal string | Continue 'a

definition configFile :: string where
  "configFile = ''./config.json''"

definition port :: string where
  "port = '':42069''"

definition init :: "Startup \<Rightarrow> Globals \<Rightarrow> Globals fatal" where
  "init env g =
     (case ReadFile env configFile of
        Inl err \<Rightarrow> Fatal (''Error reading JSON file:'' @ err)
      | Inr file \<Rightarrow>
          (case Unmarshal env file of
             Inl err \<Rightarrow> Fatal (''Error unmarshalling JSON:'' @ err)
           | Inr jsonData \<Rightarrow>
               Continue (g\<lparr>oauthConfig := Some
                 \<lparr>ClientID = jsonClientID jsonData,
                  ClientSecret = jsonClientSecret jsonData,
                  RedirectURL = jsonRedirectURL jsonData,
                  Scopes = jsonScopes jsonData,
                  Endpoint = AzureADEndpoint (jsonTenant jsonData)\<rparr>\<rparr>)))"

text \<open>
  The router of \<^verbatim>\<open>main\<close>: five patterns without a trailing slash, each matching its
  path exactly; any other path is answered by the router's own not-found handler. The
  path is taken as the router sees it after its own cleaning. A handler that
  dereferences the nil configuration panics. No handler assigns the global.
\<close>

record World =
  world_db :: DB
  world_net :: Net
  world_rand :: Rand

definition nilConfig :: panic where
  "nilConfig = Panic ''invalid memory address or nil pointer dereference''"

definition ServeHTTP :: "Globals \<Rightarrow> World \<Rightarrow> Request \<Rightarrow> Globals \<times> (panic + ResponseWriter)" where
  "ServeHTTP g wld r =
     (if Path r = ''/oauth/login'' then
        (case oauthConfig g of
           None \<Rightarrow> (g, Inl nilConfig)
         | Some c \<Rightarrow> (g, oauthLoginHandler c (world_net wld) (world_rand wld) r newResponseWriter))
      else if Path r = ''/oauth/exchange'' then
        (case oauthConfig g of
           None \<Rightarrow> (g, Inl nilConfig)
         | Some c \<Rightarrow> (g, Inr (fst (oauthExchangeHandler c (world_net wld) r newResponseWriter))))
      else if Path r = ''/db/freeclass'' then
        (g, Inr (fst (freeClassHandler (world_db wld) r newResponseWriter)))
      else if Path r = ''/db/freeslot'' then
        (g, Inr (fst (freeSlotHandler (world_db wld) r newResponseWriter)))
      else if Path r = ''/db/daytimetable'' then
        (g, Inr (fst (dayTimetableHandler (world_db wld) r newResponseWriter)))
      else (g, Inr (http_Error ''404 page not found'' 404 newResponseWriter)))"

fun serve :: "Globals \<Rightarrow> (World \<times> Request) list \<Rightarrow> Globals \<times> (panic + ResponseWriter) list" where
  "serve g [] = (g, [])"
| "serve g ((wld, r) # rest) =
     (let (g', resp) = ServeHTTP g wld r;
          (g'', resps) = serve g' rest
      in (g'', resp # resps))"

text \<open>
  The process: \<^verbatim>\<open>init\<close>, then \<^verbatim>\<open>main\<close>, which binds the port and serves the requests
  that arrive. \<open>Exit\<close> carries the diagnostic of \<^verbatim>\<open>log.Fatal\<close>; a process that exits
  has answered no request.
\<close>

datatype outcome = Exit string | Serving Globals "(panic + ResponseWriter) list"

definition main :: "Startup \<Rightarrow> Globals \<Rightarrow> (World \<times> Request) list \<Rightarrow> outcome" where
  "main env g reqs =
     (case Listen env port of
        Some err \<Rightarrow> Exit err
      | None \<Rightarrow> (let (g', resps) = serve g reqs in Serving g' resps))"

definition program :: "Startup \<Rightarrow> (World \<times> Request) list \<Rightarrow> outcome" where
  "program env reqs =
     (case init env \<lparr>oauthConfig = None\<rparr> of
        Fatal diagnostic \<Rightarrow> Exit diagnostic
      | Continue g \<Rightarrow> main env g reqs)"

section \<open>Example data\<close>

text \<open>
  A database layer that answers as in the two examples of the specification, and
  with the nil slice for every other query but one empty timetable; and a GET request.
\<close>

definition demo_db :: DB where
  "demo_db =
     \<lparr>GetFreeClass = (\<lambda>slot day. if slot = 3 \<and> day = ''Mon'' then Slice [''Room A'', ''Room B''] else NilSlice),
      GetFreeSlot = (\<lambda>class day. if class = ''10A'' \<and> day = ''Tue'' then Slice [1, 4, 6] else NilSlice),
      GetTimetableByDay = (\<lambda>class day. if class = ''10A'' then Slice [] else NilSlice)\<rparr>"

definition GET :: "string \<Rightarrow> (string \<times> string) list \<Rightarrow> Request" where
  "GET p q = \<lparr>Method = ''GET'', Path = p, Query = q, Context = Ctx 0\<rparr>"

text \<open>
  The request that \<^verbatim>\<open>requestGraphAPI\<close> hands to the client, the URLs of the Graph
  requests among the events of a handler, and an identity provider for the examples:
  it accepts the code \<^verbatim>\<open>good\<close> only, and its Graph API answers as the given function.
\<close>


definition graphRequest :: "string \<Rightarrow> string \<Rightarrow> ClientRequest" where
  "graphRequest accessToken endpoint =
     \<lparr>reqMethod = ''GET'', reqURL = ''https://graph.microsoft.com/v1.0/'' @ endpoint,
      reqHeader = [(''Authorization'', ''Bearer '' @ accessToken), (''Accept'', ''application/json'')]\<rparr>"

fun graphURLs :: "event list \<Rightarrow> string list" where
  "graphURLs [] = []"
| "graphURLs (GraphRequest req # es) = reqURL req # graphURLs es"
| "graphURLs (e # es) = graphURLs es"

definition demo_config :: oauth2_Config where
  "demo_config =
     \<lparr>ClientID = ''client-1'', ClientSecret = ''s3cret'', RedirectURL = ''http://localhost:42069/oauth/exchange'',
      Scopes = Slice [''User.Read''], Endpoint = AzureADEndpoint ''contoso''\<rparr>"

definition demo_token :: oauth2_Token where
  "demo_token = \<lparr>AccessToken = ''tok'', TokenType = ''Bearer'', RefreshToken = []\<rparr>"

definition demo_net :: "(ClientRequest \<Rightarrow> string + ClientResponse) \<Rightarrow> Net" where
  "demo_net do =
     \<lparr>Exchange = (\<lambda>c ctx code. if code = ''good'' then Inr demo_token
                     else Inl ''oauth2: cannot fetch token: 400 Bad Request''),
      Do = do,
      parseErr = (\<lambda>u. None),
      parsedHost = (\<lambda>u. ''graph.microsoft.com''),
      absolutePath = (\<lambda>p u. u)\<rparr>"

definition do_ok :: "ClientRequest \<Rightarrow> string + ClientResponse" where
  "do_ok req =
     (if reqURL req = ''https://graph.microsoft.com/v1.0/me''
      then Inr \<lparr>StatusCode = 200, Status = ''200 OK'', Body = Inr ''{P}''\<rparr>
      else Inr \<lparr>StatusCode = 200, Status = ''200 OK'', Body = Inr ''{O}''\<rparr>)"

definition do_org_down :: "ClientRequest \<Rightarrow> string + ClientResponse" where
  "do_org_down req =
     (if reqURL req = ''https://graph.microsoft.com/v1.0/me''
      then Inr \<lparr>StatusCode = 200, Status = ''200 OK'', Body = Inr ''{P}''\<rparr>
      else Inr \<lparr>StatusCode = 503, Status = ''503 Service Unavailable'', Body = Inr []\<rparr>)"

definition do_outage :: "ClientRequest \<Rightarrow> string + ClientResponse" where
  "do_outage req = Inl ''dial tcp: i/o timeout''"

text \<open>
  A parsed configuration, a start-up environment whose configuration file has the
  given content (or cannot be read), the collaborators of one request, and a random
  source for a call that reads the clock value \<open>t\<close>.
\<close>

definition demo_repr :: oauthJSONRepr where
  "demo_repr =
     \<lparr>jsonClientID = ''client-1'', jsonClientSecret = ''s3cret'',
      jsonRedirectURL = ''http://localhost:42069/oauth/exchange'',
      jsonScopes = Slice [''User.Read''], jsonTenant = ''contoso''\<rparr>"

definition demo_startup :: "(string + string) \<Rightarrow> Startup" where
  "demo_startup file =
     \<lparr>ReadFile = (\<lambda>p. if p = ''./config.json'' then file else Inl ''open: no such file or directory''),
      Unmarshal = (\<lambda>bs. if bs = ''{config}'' then Inr demo_repr
                       else Inl ''invalid character in JSON''),
      Listen = (\<lambda>addr. None)\<rparr>"

definition demo_world :: World where
  "demo_world =
     \<lparr>world_db = demo_db, world_net = demo_net do_ok,
      world_rand = \<lparr>UnixNano = 1700000000000000000, Seed = (\<lambda>s k. nat s + 7 * k)\<rparr>\<rparr>"


section \<open>Responses of the writer and of the db handlers\<close>

lemmas writer_defs =
  newResponseWriter_def WriteHeader_def Write_def setHeader_def http_Error_def Header_Get_def
  Header_Del_def textPlain_def

lemma http_Error_fresh:
  "http_Error err code newResponseWriter =
     \<lparr>header = [(''Content-Type'', ''text/plain; charset=utf-8''), (''X-Content-Type-Options'', ''nosniff'')],
      wroteHeader = True, status = code,
      sent = [(''Content-Type'', ''text/plain; charset=utf-8''), (''X-Content-Type-Options'', ''nosniff'')],
      body = err @ ''\<newline>''\<rparr>"
  by (simp add: writer_defs)

lemma write_json_fresh:
  "Write bs (setHeader ''Content-Type'' ''application/json'' newResponseWriter) =
     \<lparr>header = [(''Content-Type'', ''application/json'')], wroteHeader = True, status = 200,
      sent = [(''Content-Type'', ''application/json'')], body = bs\<rparr>"
  by (simp add: writer_defs)

lemma freeClassHandler_fresh:
  "freeClassHandler db r newResponseWriter =
     (case Atoi (Values_Get ''slot'' (Query r)) of
        Inl e \<Rightarrow> (http_Error ''Invalid slot value'' 400 newResponseWriter, [])
      | Inr slot \<Rightarrow>
          (Write (encodeArray appendString (GetFreeClass db slot (Values_Get ''day'' (Query r))))
             (setHeader ''Content-Type'' ''application/json'' newResponseWriter),
           [CallGetFreeClass slot (Values_Get ''day'' (Query r))]))"
  by (simp add: freeClassHandler_def Marshal_strings_def Let_def split: sum.splits)

lemma freeSlotHandler_fresh:
  "freeSlotHandler db r newResponseWriter =
     (Write (encodeArray FormatInt
               (GetFreeSlot db (Values_Get ''class'' (Query r)) (Values_Get ''day'' (Query r))))
        (setHeader ''Content-Type'' ''application/json'' newResponseWriter),
      [CallGetFreeSlot (Values_Get ''class'' (Query r)) (Values_Get ''day'' (Query r))])"
  by (simp add: freeSlotHandler_def Marshal_ints_def Let_def)

lemma dayTimetableHandler_fresh:
  "dayTimetableHandler db r newResponseWriter =
     (Write (encodeArray appendString
               (GetTimetableByDay db (Values_Get ''class'' (Query r)) (Values_Get ''day'' (Query r))))
        (setHeader ''Content-Type'' ''application/json'' newResponseWriter),
      [CallGetTimetableByDay (Values_Get ''class'' (Query r)) (Values_Get ''day'' (Query r))])"
  by (simp add: dayTimetableHandler_def Marshal_strings_def Let_def)

lemma Atoi_abc: "Atoi ''abc'' = Inl ErrSyntax"
  by (simp add: Atoi_def ParseUint_def isDigit_def)

lemma Atoi_3: "Atoi ''3'' = Inr 3"
  by (simp add: Atoi_def ParseUint_def isDigit_def digitVal_def)

lemma Atoi_empty: "Atoi [] = Inl ErrSyntax"
  by (simp add: Atoi_def)

section \<open>Claims about /db/freeclass with a slot that is no integer\<close>

text \<open>
  Claim C2, as the code has it. When \<^verbatim>\<open>strconv.Atoi\<close> rejects the \<^verbatim>\<open>slot\<close> parameter,
  the handler answers with status 400, the body is the message
  \<^verbatim>\<open>Invalid slot value\<close> followed by the newline that \<^verbatim>\<open>http.Error\<close> prints after
  it, and no function of the database layer is called.
\<close>

theorem freeClass_invalid_slot:
  assumes "Atoi (Values_Get ''slot'' (Query r)) = Inl e"
  shows "status (fst (freeClassHandler db r newResponseWriter)) = 400
       \<and> body (fst (freeClassHandler db r newResponseWriter)) = ''Invalid slot value'' @ ''\<newline>''
       \<and> snd (freeClassHandler db r newResponseWriter) = []"
  using assms by (simp add: freeClassHandler_fresh http_Error_fresh)

theorem freeClass_invalid_slot_witness:
  "Atoi (Values_Get ''slot'' (Query (GET ''/db/freeclass'' [(''slot'', ''abc''), (''day'', ''Mon'')])))
     = Inl ErrSyntax
   \<and> status (fst (freeClassHandler demo_db
        (GET ''/db/freeclass'' [(''slot'', ''abc''), (''day'', ''Mon'')]) newResponseWriter)) = 400
   \<and> body (fst (freeClassHandler demo_db
        (GET ''/db/freeclass'' [(''slot'', ''abc''), (''day'', ''Mon'')]) newResponseWriter))
     = ''Invalid slot value'' @ ''\<newline>''
   \<and> snd (freeClassHandler demo_db
        (GET ''/db/freeclass'' [(''slot'', ''abc''), (''day'', ''Mon'')]) newResponseWriter) = []"
proof -
  have h: "Atoi (Values_Get ''slot'' (Query (GET ''/db/freeclass'' [(''slot'', ''abc''), (''day'', ''Mon'')])))
             = Inl ErrSyntax"
    by (simp add: GET_def Values_Get_def Atoi_abc)
  from freeClass_invalid_slot [OF h, of demo_db] h show ?thesis by simp
qed

text \<open>
  The body is not the bare message: at \<^verbatim>\<open>slot=abc\<close> it differs from
  \<^verbatim>\<open>Invalid slot value\<close> by the trailing newline.
\<close>

theorem freeClass_invalid_slot_body_counterexample:
  "body (fst (freeClassHandler demo_db
      (GET ''/db/freeclass'' [(''slot'', ''abc''), (''day'', ''Mon'')]) newResponseWriter))
     \<noteq> ''Invalid slot value''"
  by (simp add: freeClassHandler_fresh http_Error_fresh GET_def Values_Get_def Atoi_abc)

section \<open>The OAuth exchange handler, case by case\<close>

lemma url_Parse_https:
  "url_Parse net (''https://'' @ rest) =
     (case parseErr net (''https://'' @ rest) of
        Some err \<Rightarrow> Inl err
      | None \<Rightarrow> Inr \<lparr>Scheme = map toLower ''https'', Host = parsedHost net (''https://'' @ rest)\<rparr>)"
  by (simp add: url_Parse_def getScheme_def isLetter_def isDigit_def split: option.splits)

lemma requestGraphAPI_eq:
  "requestGraphAPI net tok ep =
     (case parseErr net (''https://graph.microsoft.com/v1.0/'' @ ep) of
        Some err \<Rightarrow> (Inl err, [])
      | None \<Rightarrow>
          (case Do net (graphRequest tok ep) of
             Inl err \<Rightarrow> (Inl err, [GraphRequest (graphRequest tok ep)])
           | Inr resp \<Rightarrow>
               (if StatusCode resp \<noteq> 200
                then Inl (''unexpected response status: '' @ Status resp)
                else Body resp,
                [GraphRequest (graphRequest tok ep)])))"
  using url_Parse_https [of net "''graph.microsoft.com/v1.0/'' @ ep"]
  by (auto simp add: requestGraphAPI_def NewRequest_def graphRequest_def Let_def
        split: option.splits sum.splits)

lemma graphURLs_requestGraphAPI:
  "graphURLs (snd (requestGraphAPI net tok ep)) = [] \<or>
   graphURLs (snd (requestGraphAPI net tok ep)) = [''https://graph.microsoft.com/v1.0/'' @ ep]"
  by (simp add: requestGraphAPI_eq graphRequest_def split: option.splits sum.splits)

lemma graphURLs_append: "graphURLs (xs @ ys) = graphURLs xs @ graphURLs ys"
  by (induction xs rule: graphURLs.induct) simp_all


lemma map_of_filter_other:
  "k \<noteq> k' \<Longrightarrow> map_of (filter (\<lambda>kv. fst kv \<noteq> k') q) k = map_of q k"
  by (induction q) auto

lemma Values_Get_filter_other:
  "k \<noteq> k' \<Longrightarrow> Values_Get k (filter (\<lambda>kv. fst kv \<noteq> k') q) = Values_Get k q"
  by (simp add: Values_Get_def map_of_filter_other)

lemma exchange_fresh_fail:
  assumes "Exchange net cfg (Context r) (Values_Get ''code'' (Query r)) = Inl err"
  shows "oauthExchangeHandler cfg net r newResponseWriter =
     (\<lparr>header = [(''Content-Type'', ''text/plain; charset=utf-8'')], wroteHeader = True, status = 400,
       sent = [(''Content-Type'', ''text/plain; charset=utf-8'')], body = err\<rparr>,
      [TokenExchange (Context r) (Values_Get ''code'' (Query r)),
       LogPrintln (''Error while exchanging authorization code '' @ err)])"
  using assms by (simp add: oauthExchangeHandler_def Let_def writer_defs)

lemma exchange_fresh_profile_fail:
  assumes "Exchange net cfg (Context r) (Values_Get ''code'' (Query r)) = Inr token"
      and "requestGraphAPI net (AccessToken token) ''me'' = (Inl err, ev1)"
  shows "oauthExchangeHandler cfg net r newResponseWriter =
     (\<lparr>header = [(''Content-Type'', ''text/plain; charset=utf-8'')], wroteHeader = True, status = 403,
       sent = [(''Content-Type'', ''text/plain; charset=utf-8'')], body = err\<rparr>,
      TokenExchange (Context r) (Values_Get ''code'' (Query r)) # ev1
        @ [LogPrintln (''Error getting user profile '' @ err)])"
  using assms by (simp add: oauthExchangeHandler_def Let_def writer_defs)

lemma exchange_fresh_org_fail:
  assumes "Exchange net cfg (Context r) (Values_Get ''code'' (Query r)) = Inr token"
      and "requestGraphAPI net (AccessToken token) ''me'' = (Inr profile, ev1)"
      and "requestGraphAPI net (AccessToken token) ''organization'' = (Inl err, ev2)"
  shows "oauthExchangeHandler cfg net r newResponseWriter =
     (\<lparr>header = [(''Content-Type'', ''text/plain; charset=utf-8'')], wroteHeader = True, status = 403,
       sent = [(''Content-Type'', ''text/plain; charset=utf-8'')], body = err\<rparr>,
      TokenExchange (Context r) (Values_Get ''code'' (Query r)) # ev1 @ ev2
        @ [LogPrintln (''Error getting user organization '' @ err)])"
  using assms by (simp add: oauthExchangeHandler_def Let_def writer_defs)

lemma exchange_fresh_ok:
  assumes "Exchange net cfg (Context r) (Values_Get ''code'' (Query r)) = Inr token"
      and "requestGraphAPI net (AccessToken token) ''me'' = (Inr profile, ev1)"
      and "requestGraphAPI net (AccessToken token) ''organization'' = (Inr org, ev2)"
  shows "oauthExchangeHandler cfg net r newResponseWriter =
     (\<lparr>header = [(''Content-Type'', ''application/json'')], wroteHeader = True, status = 200,
       sent = [(''Content-Type'', ''application/json'')], body = profile @ ''\<newline>'' @ org\<rparr>,
      TokenExchange (Context r) (Values_Get ''code'' (Query r)) # ev1 @ ev2)"
  using assms by (simp add: oauthExchangeHandler_def Let_def writer_defs)


lemma requestGraphAPI_ok_events:
  "fst (requestGraphAPI net tok ep) = Inr b \<Longrightarrow>
   graphURLs (snd (requestGraphAPI net tok ep)) = [''https://graph.microsoft.com/v1.0/'' @ ep]"
  by (simp add: requestGraphAPI_eq graphRequest_def split: option.splits sum.splits if_splits)

lemma demo_exchange_good:
  "Exchange (demo_net do) cfg ctx ''good'' = Inr demo_token"
  by (simp add: demo_net_def)

lemma demo_exchange_bad:
  "Exchange (demo_net do) cfg ctx ''bad'' = Inl ''oauth2: cannot fetch token: 400 Bad Request''"
  by (simp add: demo_net_def)

lemma demo_ok_me:
  "requestGraphAPI (demo_net do_ok) ''tok'' ''me'' = (Inr ''{P}'', [GraphRequest (graphRequest ''tok'' ''me'')])"
  by (simp add: requestGraphAPI_eq demo_net_def do_ok_def graphRequest_def)

lemma demo_ok_org:
  "requestGraphAPI (demo_net do_ok) ''tok'' ''organization''
     = (Inr ''{O}'', [GraphRequest (graphRequest ''tok'' ''organization'')])"
  by (simp add: requestGraphAPI_eq demo_net_def do_ok_def graphRequest_def)

lemma demo_down_me:
  "requestGraphAPI (demo_net do_org_down) ''tok'' ''me'' = (Inr ''{P}'', [GraphRequest (graphRequest ''tok'' ''me'')])"
  by (simp add: requestGraphAPI_eq demo_net_def do_org_down_def graphRequest_def)

lemma demo_down_org:
  "requestGraphAPI (demo_net do_org_down) ''tok'' ''organization''
     = (Inl ''unexpected response status: 503 Service Unavailable'',
        [GraphRequest (graphRequest ''tok'' ''organization'')])"
  by (simp add: requestGraphAPI_eq demo_net_def do_org_down_def graphRequest_def)

lemma demo_outage_me:
  "requestGraphAPI (demo_net do_outage) ''tok'' ''me''
     = (Inl ''dial tcp: i/o timeout'', [GraphRequest (graphRequest ''tok'' ''me'')])"
  by (simp add: requestGraphAPI_eq demo_net_def do_outage_def graphRequest_def)

section \<open>Claims about /oauth/exchange\<close>

text \<open>
  Claim C3. When the exchange of the authorization code fails, the handler answers
  with status 400 (so neither 403 nor 500), the plain-text content type and the text
  of the error as the body; its only effects are the exchange itself and one log line,
  so no request to the Graph API is issued.
\<close>

theorem exchange_failure_is_400:
  assumes "Exchange net cfg (Context r) (Values_Get ''code'' (Query r)) = Inl err"
  shows "status (fst (oauthExchangeHandler cfg net r newResponseWriter)) = 400
       \<and> status (fst (oauthExchangeHandler cfg net r newResponseWriter)) \<noteq> 403
       \<and> status (fst (oauthExchangeHandler cfg net r newResponseWriter)) \<noteq> 500
       \<and> Header_Get ''Content-Type'' (sent (fst (oauthExchangeHandler cfg net r newResponseWriter)))
           = ''text/plain; charset=utf-8''
       \<and> body (fst (oauthExchangeHandler cfg net r newResponseWriter)) = err
       \<and> snd (oauthExchangeHandler cfg net r newResponseWriter)
           = [TokenExchange (Context r) (Values_Get ''code'' (Query r)),
              LogPrintln (''Error while exchanging authorization code '' @ err)]
       \<and> graphURLs (snd (oauthExchangeHandler cfg net r newResponseWriter)) = []"
  by (simp add: exchange_fresh_fail [OF assms] Header_Get_def)

theorem exchange_failure_is_400_witness:
  "Exchange (demo_net do_ok) demo_config (Context (GET ''/oauth/exchange'' [(''code'', ''bad'')]))
      (Values_Get ''code'' (Query (GET ''/oauth/exchange'' [(''code'', ''bad'')])))
     = Inl ''oauth2: cannot fetch token: 400 Bad Request''
   \<and> status (fst (oauthExchangeHandler demo_config (demo_net do_ok)
        (GET ''/oauth/exchange'' [(''code'', ''bad'')]) newResponseWriter)) = 400
   \<and> body (fst (oauthExchangeHandler demo_config (demo_net do_ok)
        (GET ''/oauth/exchange'' [(''code'', ''bad'')]) newResponseWriter))
     = ''oauth2: cannot fetch token: 400 Bad Request''
   \<and> graphURLs (snd (oauthExchangeHandler demo_config (demo_net do_ok)
        (GET ''/oauth/exchange'' [(''code'', ''bad'')]) newResponseWriter)) = []"
proof -
  have h: "Exchange (demo_net do_ok) demo_config (Context (GET ''/oauth/exchange'' [(''code'', ''bad'')]))
      (Values_Get ''code'' (Query (GET ''/oauth/exchange'' [(''code'', ''bad'')])))
     = Inl ''oauth2: cannot fetch token: 400 Bad Request''"
    by (simp add: GET_def Values_Get_def demo_exchange_bad)
  from exchange_failure_is_400 [OF h] h show ?thesis by simp
qed

text \<open>
  Claim C4, as the code has it. When the exchange succeeds and the profile call or,
  after a successful profile call, the organization call fails, the handler answers
  with status 403, the plain-text content type and the error text of the failed call
  as the body. The organization request is not issued when the profile call failed,
  and the Graph requests of a run are none, the profile request alone, or the profile
  request followed by the organization request. The error text carries the status
  line of the provider when the provider answered with a status other than 200; when
  the client could not reach the provider it is the text of the transport error.
\<close>

theorem downstream_failure_is_403:
  assumes ex: "Exchange net cfg (Context r) (Values_Get ''code'' (Query r)) = Inr token"
      and fail: "fst (requestGraphAPI net (AccessToken token) ''me'') = Inl err
                 \<or> (fst (requestGraphAPI net (AccessToken token) ''me'') = Inr profile
                     \<and> fst (requestGraphAPI net (AccessToken token) ''organization'') = Inl err)"
  shows "status (fst (oauthExchangeHandler cfg net r newResponseWriter)) = 403
       \<and> Header_Get ''Content-Type'' (sent (fst (oauthExchangeHandler cfg net r newResponseWriter)))
           = ''text/plain; charset=utf-8''
       \<and> body (fst (oauthExchangeHandler cfg net r newResponseWriter)) = err
       \<and> (fst (requestGraphAPI net (AccessToken token) ''me'') = Inl err \<longrightarrow>
            ''https://graph.microsoft.com/v1.0/organization''
              \<notin> set (graphURLs (snd (oauthExchangeHandler cfg net r newResponseWriter))))
       \<and> (graphURLs (snd (oauthExchangeHandler cfg net r newResponseWriter)) = []
            \<or> graphURLs (snd (oauthExchangeHandler cfg net r newResponseWriter))
                 = [''https://graph.microsoft.com/v1.0/me'']
            \<or> graphURLs (snd (oauthExchangeHandler cfg net r newResponseWriter))
                 = [''https://graph.microsoft.com/v1.0/me'',
                    ''https://graph.microsoft.com/v1.0/organization''])
       \<and> (\<forall>ep resp. parseErr net (''https://graph.microsoft.com/v1.0/'' @ ep) = None
              \<and> Do net (graphRequest (AccessToken token) ep) = Inr resp \<and> StatusCode resp \<noteq> 200
            \<longrightarrow> fst (requestGraphAPI net (AccessToken token) ep)
                  = Inl (''unexpected response status: '' @ Status resp))
       \<and> (\<forall>ep e. parseErr net (''https://graph.microsoft.com/v1.0/'' @ ep) = None
              \<and> Do net (graphRequest (AccessToken token) ep) = Inl e
            \<longrightarrow> fst (requestGraphAPI net (AccessToken token) ep) = Inl e)"
proof -
  let ?me = "requestGraphAPI net (AccessToken token) ''me''"
  let ?org = "requestGraphAPI net (AccessToken token) ''organization''"
  have texts: "(\<forall>ep resp. parseErr net (''https://graph.microsoft.com/v1.0/'' @ ep) = None
              \<and> Do net (graphRequest (AccessToken token) ep) = Inr resp \<and> StatusCode resp \<noteq> 200
            \<longrightarrow> fst (requestGraphAPI net (AccessToken token) ep)
                  = Inl (''unexpected response status: '' @ Status resp))
       \<and> (\<forall>ep e. parseErr net (''https://graph.microsoft.com/v1.0/'' @ ep) = None
              \<and> Do net (graphRequest (AccessToken token) ep) = Inl e
            \<longrightarrow> fst (requestGraphAPI net (AccessToken token) ep) = Inl e)"
    by (simp add: requestGraphAPI_eq)
  from fail show ?thesis
  proof
    assume a: "fst ?me = Inl err"
    then have me: "?me = (Inl err, snd ?me)" by (metis prod.collapse)
    have urls: "graphURLs (snd ?me) = [] \<or> graphURLs (snd ?me) = [''https://graph.microsoft.com/v1.0/me'']"
      using graphURLs_requestGraphAPI [of net "AccessToken token" "''me''"] by simp
    show ?thesis
      using urls texts a
      by (auto simp add: exchange_fresh_profile_fail [OF ex me] Header_Get_def graphURLs_append)
  next
    assume b: "fst ?me = Inr profile \<and> fst ?org = Inl err"
    then have me: "?me = (Inr profile, snd ?me)" and org: "?org = (Inl err, snd ?org)"
      by (metis prod.collapse)+
    have u1: "graphURLs (snd ?me) = [''https://graph.microsoft.com/v1.0/me'']"
      using requestGraphAPI_ok_events [of net "AccessToken token" "''me''" profile] b by simp
    have u2: "graphURLs (snd ?org) = []
              \<or> graphURLs (snd ?org) = [''https://graph.microsoft.com/v1.0/organization'']"
      using graphURLs_requestGraphAPI [of net "AccessToken token" "''organization''"] by simp
    show ?thesis
      using u1 u2 texts b
      by (auto simp add: exchange_fresh_org_fail [OF ex me org] Header_Get_def graphURLs_append)
  qed
qed

theorem downstream_failure_is_403_witness:
  "Exchange (demo_net do_org_down) demo_config (Context (GET ''/oauth/exchange'' [(''code'', ''good'')]))
      (Values_Get ''code'' (Query (GET ''/oauth/exchange'' [(''code'', ''good'')]))) = Inr demo_token
   \<and> fst (requestGraphAPI (demo_net do_org_down) (AccessToken demo_token) ''me'') = Inr ''{P}''
   \<and> fst (requestGraphAPI (demo_net do_org_down) (AccessToken demo_token) ''organization'')
        = Inl ''unexpected response status: 503 Service Unavailable''
   \<and> status (fst (oauthExchangeHandler demo_config (demo_net do_org_down)
        (GET ''/oauth/exchange'' [(''code'', ''good'')]) newResponseWriter)) = 403
   \<and> Header_Get ''Content-Type'' (sent (fst (oauthExchangeHandler demo_config (demo_net do_org_down)
        (GET ''/oauth/exchange'' [(''code'', ''good'')]) newResponseWriter)))
        = ''text/plain; charset=utf-8''
   \<and> body (fst (oauthExchangeHandler demo_config (demo_net do_org_down)
        (GET ''/oauth/exchange'' [(''code'', ''good'')]) newResponseWriter))
        = ''unexpected response status: 503 Service Unavailable''"
proof -
  have ex: "Exchange (demo_net do_org_down) demo_config (Context (GET ''/oauth/exchange'' [(''code'', ''good'')]))
      (Values_Get ''code'' (Query (GET ''/oauth/exchange'' [(''code'', ''good'')]))) = Inr demo_token"
    by (simp add: GET_def Values_Get_def demo_exchange_good)
  have me: "fst (requestGraphAPI (demo_net do_org_down) (AccessToken demo_token) ''me'') = Inr ''{P}''"
    by (simp add: demo_token_def demo_down_me)
  have org: "fst (requestGraphAPI (demo_net do_org_down) (AccessToken demo_token) ''organization'')
        = Inl ''unexpected response status: 503 Service Unavailable''"
    by (simp add: demo_token_def demo_down_org)
  from me org have fail:
    "fst (requestGraphAPI (demo_net do_org_down) (AccessToken demo_token) ''me'')
       = Inl ''unexpected response status: 503 Service Unavailable''
     \<or> (fst (requestGraphAPI (demo_net do_org_down) (AccessToken demo_token) ''me'') = Inr ''{P}''
        \<and> fst (requestGraphAPI (demo_net do_org_down) (AccessToken demo_token) ''organization'')
            = Inl ''unexpected response status: 503 Service Unavailable'')"
    by blast
  from downstream_failure_is_403 [OF ex fail] ex me org show ?thesis by blast
qed

text \<open>
  The body does not always carry a status text of the provider: when the client
  cannot reach the Graph API there is no response at all, and the body of the 403
  is the text of the transport error.
\<close>

theorem downstream_outage_counterexample:
  "status (fst (oauthExchangeHandler demo_config (demo_net do_outage)
        (GET ''/oauth/exchange'' [(''code'', ''good'')]) newResponseWriter)) = 403
   \<and> body (fst (oauthExchangeHandler demo_config (demo_net do_outage)
        (GET ''/oauth/exchange'' [(''code'', ''good'')]) newResponseWriter)) = ''dial tcp: i/o timeout''
   \<and> \<not> (\<exists>resp. Do (demo_net do_outage) (graphRequest ''tok'' ''me'') = Inr resp)"
proof -
  have ex: "Exchange (demo_net do_outage) demo_config (Context (GET ''/oauth/exchange'' [(''code'', ''good'')]))
      (Values_Get ''code'' (Query (GET ''/oauth/exchange'' [(''code'', ''good'')]))) = Inr demo_token"
    by (simp add: GET_def Values_Get_def demo_exchange_good)
  have me: "requestGraphAPI (demo_net do_outage) (AccessToken demo_token) ''me''
     = (Inl ''dial tcp: i/o timeout'', [GraphRequest (graphRequest ''tok'' ''me'')])"
    by (simp add: demo_token_def demo_outage_me)
  have no_response: "Do (demo_net do_outage) (graphRequest ''tok'' ''me'') = Inl ''dial tcp: i/o timeout''"
    by (simp add: demo_net_def do_outage_def)
  show ?thesis
    by (simp add: exchange_fresh_profile_fail [OF ex me] no_response)
qed

text \<open>
  Claim C5. When the exchange and both Graph calls succeed, the handler answers with
  status 200, the JSON content type, and the profile payload, one newline and the
  organization payload as the body, in that order.
\<close>

theorem exchange_success_is_200:
  assumes "Exchange net cfg (Context r) (Values_Get ''code'' (Query r)) = Inr token"
      and "fst (requestGraphAPI net (AccessToken token) ''me'') = Inr profile"
      and "fst (requestGraphAPI net (AccessToken token) ''organization'') = Inr org"
  shows "status (fst (oauthExchangeHandler cfg net r newResponseWriter)) = 200
       \<and> Header_Get ''Content-Type'' (sent (fst (oauthExchangeHandler cfg net r newResponseWriter)))
           = ''application/json''
       \<and> body (fst (oauthExchangeHandler cfg net r newResponseWriter))
           = profile @ ''\<newline>'' @ org"
proof -
  have me: "requestGraphAPI net (AccessToken token) ''me''
              = (Inr profile, snd (requestGraphAPI net (AccessToken token) ''me''))"
    using assms(2) by (metis prod.collapse)
  have org: "requestGraphAPI net (AccessToken token) ''organization''
              = (Inr org, snd (requestGraphAPI net (AccessToken token) ''organization''))"
    using assms(3) by (metis prod.collapse)
  show ?thesis
    by (simp add: exchange_fresh_ok [OF assms(1) me org] Header_Get_def)
qed

theorem exchange_success_is_200_witness:
  "Exchange (demo_net do_ok) demo_config (Context (GET ''/oauth/exchange'' [(''code'', ''good'')]))
      (Values_Get ''code'' (Query (GET ''/oauth/exchange'' [(''code'', ''good'')]))) = Inr demo_token
   \<and> fst (requestGraphAPI (demo_net do_ok) (AccessToken demo_token) ''me'') = Inr ''{P}''
   \<and> fst (requestGraphAPI (demo_net do_ok) (AccessToken demo_token) ''organization'') = Inr ''{O}''
   \<and> status (fst (oauthExchangeHandler demo_config (demo_net do_ok)
        (GET ''/oauth/exchange'' [(''code'', ''good'')]) newResponseWriter)) = 200
   \<and> Header_Get ''Content-Type'' (sent (fst (oauthExchangeHandler demo_config (demo_net do_ok)
        (GET ''/oauth/exchange'' [(''code'', ''good'')]) newResponseWriter))) = ''application/json''
   \<and> body (fst (oauthExchangeHandler demo_config (demo_net do_ok)
        (GET ''/oauth/exchange'' [(''code'', ''good'')]) newResponseWriter))
        = ''{P}'' @ ''\<newline>'' @ ''{O}''"
proof -
  have ex: "Exchange (demo_net do_ok) demo_config (Context (GET ''/oauth/exchange'' [(''code'', ''good'')]))
      (Values_Get ''code'' (Query (GET ''/oauth/exchange'' [(''code'', ''good'')]))) = Inr demo_token"
    by (simp add: GET_def Values_Get_def demo_exchange_good)
  have me: "fst (requestGraphAPI (demo_net do_ok) (AccessToken demo_token) ''me'') = Inr ''{P}''"
    by (simp add: demo_token_def demo_ok_me)
  have org: "fst (requestGraphAPI (demo_net do_ok) (AccessToken demo_token) ''organization'') = Inr ''{O}''"
    by (simp add: demo_token_def demo_ok_org)
  from exchange_success_is_200 [OF ex me org] ex me org show ?thesis by blast
qed

text \<open>
  Claim C7. Two requests to /oauth/exchange whose queries agree on every pair but
  those of the key \<^verbatim>\<open>state\<close> get the same response and cause the same events: the
  handler never reads the state token.
\<close>

theorem exchange_ignores_state:
  assumes "filter (\<lambda>kv. fst kv \<noteq> ''state'') q1 = filter (\<lambda>kv. fst kv \<noteq> ''state'') q2"
  shows "oauthExchangeHandler cfg net (r\<lparr>Query := q1\<rparr>) w
       = oauthExchangeHandler cfg net (r\<lparr>Query := q2\<rparr>) w"
proof -
  have "Values_Get ''code'' q1 = Values_Get ''code'' (filter (\<lambda>kv. fst kv \<noteq> ''state'') q1)"
    by (simp add: Values_Get_filter_other)
  also have "\<dots> = Values_Get ''code'' q2"
    unfolding assms by (simp add: Values_Get_filter_other)
  finally have "Values_Get ''code'' q1 = Values_Get ''code'' q2" .
  then show ?thesis
    by (simp add: oauthExchangeHandler_def)
qed

theorem exchange_ignores_state_witness:
  "filter (\<lambda>kv. fst kv \<noteq> ''state'') [(''code'', ''good''), (''state'', ''aaaaaaaaaaaaaaaa'')]
     = filter (\<lambda>kv. fst kv \<noteq> ''state'') [(''state'', ''bbbbbbbbbbbbbbbb''), (''code'', ''good'')]
   \<and> oauthExchangeHandler demo_config (demo_net do_ok)
        ((GET ''/oauth/exchange'' [])\<lparr>Query := [(''code'', ''good''), (''state'', ''aaaaaaaaaaaaaaaa'')]\<rparr>)
        newResponseWriter
     = oauthExchangeHandler demo_config (demo_net do_ok)
        ((GET ''/oauth/exchange'' [])\<lparr>Query := [(''state'', ''bbbbbbbbbbbbbbbb''), (''code'', ''good'')]\<rparr>)
        newResponseWriter"
proof -
  have h: "filter (\<lambda>kv. fst kv \<noteq> ''state'') [(''code'', ''good''), (''state'', ''aaaaaaaaaaaaaaaa'')]
     = filter (\<lambda>kv. fst kv \<noteq> ''state'') [(''state'', ''bbbbbbbbbbbbbbbb''), (''code'', ''good'')]"
    by simp
  from exchange_ignores_state [OF h] h show ?thesis by blast
qed

section \<open>Claims about the responses of the db handlers\<close>

lemma Marshal_total:
  "Marshal_strings v = Inr (encodeArray appendString v)" "Marshal_ints u = Inr (encodeArray FormatInt u)"
  by (simp_all add: Marshal_strings_def Marshal_ints_def)

lemma appendString_Room_A: "appendString ''Room A'' = dquote # ''Room A'' @ [dquote]"
  by (simp add: appendString_def htmlSafe_def dquote_def backslash_def)

lemma appendString_Room_B: "appendString ''Room B'' = dquote # ''Room B'' @ [dquote]"
  by (simp add: appendString_def htmlSafe_def dquote_def backslash_def)

lemma FormatInt_146: "FormatInt 1 = ''1''" "FormatInt 4 = ''4''" "FormatInt 6 = ''6''"
  by (simp_all add: FormatInt_def formatBits.simps)

text \<open>
  Claim C1, as the code has it. Whatever slice the database layer returns, the handler
  answers with status 200 and a body that is exactly what \<^verbatim>\<open>json.Marshal\<close> makes of
  that slice, for /db/freeclass whenever the slot parses, for /db/freeslot and
  /db/daytimetable always; the database is asked once, with the parameters of the
  request; \<^verbatim>\<open>json.Marshal\<close> never fails on these slices, so status 500 does not
  occur. The body is the JSON array of the elements for a slice that is not nil, and
  the literal \<^verbatim>\<open>null\<close> for the nil slice.
\<close>

theorem db_handlers_write_Marshal:
  "(Atoi (Values_Get ''slot'' (Query r)) = Inr slot \<longrightarrow>
      status (fst (freeClassHandler db r newResponseWriter)) = 200
      \<and> Marshal_strings (GetFreeClass db slot (Values_Get ''day'' (Query r)))
           = Inr (body (fst (freeClassHandler db r newResponseWriter)))
      \<and> snd (freeClassHandler db r newResponseWriter)
           = [CallGetFreeClass slot (Values_Get ''day'' (Query r))])
   \<and> status (fst (freeSlotHandler db r newResponseWriter)) = 200
   \<and> Marshal_ints (GetFreeSlot db (Values_Get ''class'' (Query r)) (Values_Get ''day'' (Query r)))
        = Inr (body (fst (freeSlotHandler db r newResponseWriter)))
   \<and> snd (freeSlotHandler db r newResponseWriter)
        = [CallGetFreeSlot (Values_Get ''class'' (Query r)) (Values_Get ''day'' (Query r))]
   \<and> status (fst (dayTimetableHandler db r newResponseWriter)) = 200
   \<and> Marshal_strings (GetTimetableByDay db (Values_Get ''class'' (Query r)) (Values_Get ''day'' (Query r)))
        = Inr (body (fst (dayTimetableHandler db r newResponseWriter)))
   \<and> status (fst (freeClassHandler db r newResponseWriter)) \<noteq> 500
   \<and> Marshal_strings (Slice xs) = Inr (''['' @ joinWith '','' (map appendString xs) @ '']'')
   \<and> Marshal_ints (Slice ns) = Inr (''['' @ joinWith '','' (map FormatInt ns) @ '']'')
   \<and> Marshal_strings NilSlice = Inr ''null''
   \<and> Marshal_ints NilSlice = Inr ''null''"
  by (simp add: freeClassHandler_fresh freeSlotHandler_fresh dayTimetableHandler_fresh write_json_fresh
        http_Error_fresh Marshal_total encodeArray_def split: sum.splits)

theorem db_handlers_write_Marshal_witness:
  "Atoi (Values_Get ''slot'' (Query (GET ''/db/freeclass'' [(''slot'', ''3''), (''day'', ''Mon'')]))) = Inr 3
   \<and> status (fst (freeClassHandler demo_db
         (GET ''/db/freeclass'' [(''slot'', ''3''), (''day'', ''Mon'')]) newResponseWriter)) = 200
   \<and> body (fst (freeClassHandler demo_db
         (GET ''/db/freeclass'' [(''slot'', ''3''), (''day'', ''Mon'')]) newResponseWriter))
       = ''['' @ [dquote] @ ''Room A'' @ [dquote] @ '','' @ [dquote] @ ''Room B'' @ [dquote] @ '']''
   \<and> body (fst (freeSlotHandler demo_db
         (GET ''/db/freeslot'' [(''class'', ''10A''), (''day'', ''Tue'')]) newResponseWriter)) = ''[1,4,6]''"
proof -
  have h: "Atoi (Values_Get ''slot'' (Query (GET ''/db/freeclass'' [(''slot'', ''3''), (''day'', ''Mon'')]))) = Inr 3"
    by (simp add: GET_def Values_Get_def Atoi_3)
  have m: "Marshal_strings (GetFreeClass demo_db 3
             (Values_Get ''day'' (Query (GET ''/db/freeclass'' [(''slot'', ''3''), (''day'', ''Mon'')]))))
           = Inr (''['' @ [dquote] @ ''Room A'' @ [dquote] @ '','' @ [dquote] @ ''Room B'' @ [dquote] @ '']'')"
    by (simp add: GET_def Values_Get_def demo_db_def Marshal_total encodeArray_def
          appendString_Room_A appendString_Room_B)
  have m2: "Marshal_ints (GetFreeSlot demo_db
             (Values_Get ''class'' (Query (GET ''/db/freeslot'' [(''class'', ''10A''), (''day'', ''Tue'')])))
             (Values_Get ''day'' (Query (GET ''/db/freeslot'' [(''class'', ''10A''), (''day'', ''Tue'')]))))
           = Inr ''[1,4,6]''"
    by (simp add: GET_def Values_Get_def demo_db_def Marshal_total encodeArray_def FormatInt_146)
  from db_handlers_write_Marshal
         [of "GET ''/db/freeclass'' [(''slot'', ''3''), (''day'', ''Mon'')]" 3 demo_db "[]" "[]"] h m
  have a: "status (fst (freeClassHandler demo_db
         (GET ''/db/freeclass'' [(''slot'', ''3''), (''day'', ''Mon'')]) newResponseWriter)) = 200
     \<and> body (fst (freeClassHandler demo_db
         (GET ''/db/freeclass'' [(''slot'', ''3''), (''day'', ''Mon'')]) newResponseWriter))
       = ''['' @ [dquote] @ ''Room A'' @ [dquote] @ '','' @ [dquote] @ ''Room B'' @ [dquote] @ '']''"
    by simp
  from db_handlers_write_Marshal
         [of "GET ''/db/freeslot'' [(''class'', ''10A''), (''day'', ''Tue'')]" 3 demo_db "[]" "[]"] m2
  have b: "body (fst (freeSlotHandler demo_db
         (GET ''/db/freeslot'' [(''class'', ''10A''), (''day'', ''Tue'')]) newResponseWriter)) = ''[1,4,6]''"
    by simp
  from a b h show ?thesis by blast
qed

text \<open>
  The body is not always a JSON array: where the database layer returns the nil
  slice, /db/freeslot answers \<^verbatim>\<open>null\<close>.
\<close>

theorem freeSlot_nil_slice_counterexample:
  "GetFreeSlot demo_db ''9Z'' ''Tue'' = NilSlice
   \<and> body (fst (freeSlotHandler demo_db
         (GET ''/db/freeslot'' [(''class'', ''9Z''), (''day'', ''Tue'')]) newResponseWriter)) = ''null''
   \<and> body (fst (freeSlotHandler demo_db
         (GET ''/db/freeslot'' [(''class'', ''9Z''), (''day'', ''Tue'')]) newResponseWriter)) \<noteq> ''[]''"
  by (simp add: freeSlotHandler_fresh write_json_fresh GET_def Values_Get_def demo_db_def encodeArray_def)

section \<open>Claims about content types\<close>

lemma exchange_status_and_type:
  "(status (fst (oauthExchangeHandler cfg net r newResponseWriter)) = 200
      \<and> Header_Get ''Content-Type'' (sent (fst (oauthExchangeHandler cfg net r newResponseWriter)))
           = ''application/json'')
   \<or> ((status (fst (oauthExchangeHandler cfg net r newResponseWriter)) = 400
        \<or> status (fst (oauthExchangeHandler cfg net r newResponseWriter)) = 403)
      \<and> Header_Get ''Content-Type'' (sent (fst (oauthExchangeHandler cfg net r newResponseWriter)))
           = ''text/plain; charset=utf-8'')"
  by (simp add: oauthExchangeHandler_def Let_def writer_defs split: sum.splits prod.splits)

text \<open>
  Claim C8, as the code has it. A response with status 200 of the three db handlers
  and of /oauth/exchange carries the content type \<^verbatim>\<open>application/json\<close>. Every
  response written by \<^verbatim>\<open>http.Error\<close> carries \<^verbatim>\<open>text/plain; charset=utf-8\<close>: that is
  the 400 of /db/freeclass for a slot that does not parse, and it would be the 500 of
  a failed serialization. The 400 and 403 of /oauth/exchange carry the same plain-text
  type.
\<close>

theorem content_types:
  "Header_Get ''Content-Type'' (sent (http_Error err code newResponseWriter)) = ''text/plain; charset=utf-8''
   \<and> Header_Get ''Content-Type'' (sent (fst (freeClassHandler db r newResponseWriter)))
        = (if status (fst (freeClassHandler db r newResponseWriter)) = 200
           then ''application/json'' else ''text/plain; charset=utf-8'')
   \<and> (status (fst (freeClassHandler db r newResponseWriter)) = 400)
        = (\<exists>e. Atoi (Values_Get ''slot'' (Query r)) = Inl e)
   \<and> Header_Get ''Content-Type'' (sent (fst (freeSlotHandler db r newResponseWriter))) = ''application/json''
   \<and> Header_Get ''Content-Type'' (sent (fst (dayTimetableHandler db r newResponseWriter))) = ''application/json''
   \<and> Header_Get ''Content-Type'' (sent (fst (oauthExchangeHandler cfg net r newResponseWriter)))
        = (if status (fst (oauthExchangeHandler cfg net r newResponseWriter)) = 200
           then ''application/json'' else ''text/plain; charset=utf-8'')"
proof -
  have ex: "Header_Get ''Content-Type'' (sent (fst (oauthExchangeHandler cfg net r newResponseWriter)))
        = (if status (fst (oauthExchangeHandler cfg net r newResponseWriter)) = 200
           then ''application/json'' else ''text/plain; charset=utf-8'')"
    using exchange_status_and_type [of cfg net r] by auto
  have db: "Header_Get ''Content-Type'' (sent (fst (freeClassHandler db r newResponseWriter)))
        = (if status (fst (freeClassHandler db r newResponseWriter)) = 200
           then ''application/json'' else ''text/plain; charset=utf-8'')
      \<and> (status (fst (freeClassHandler db r newResponseWriter)) = 400)
        = (\<exists>e. Atoi (Values_Get ''slot'' (Query r)) = Inl e)"
    by (simp add: freeClassHandler_fresh write_json_fresh http_Error_fresh Header_Get_def
          split: sum.splits)
  show ?thesis
    using ex db
    by (simp add: freeSlotHandler_fresh dayTimetableHandler_fresh write_json_fresh http_Error_fresh
          Header_Get_def)
qed

theorem content_types_witness:
  "Header_Get ''Content-Type'' (sent (http_Error ''boom'' 500 newResponseWriter)) = ''text/plain; charset=utf-8''
   \<and> Header_Get ''Content-Type'' (sent (fst (freeSlotHandler demo_db
        (GET ''/db/freeslot'' [(''class'', ''10A''), (''day'', ''Tue'')]) newResponseWriter)))
       = ''application/json''"
  using content_types [of "''boom''" 500 demo_db
          "GET ''/db/freeslot'' [(''class'', ''10A''), (''day'', ''Tue'')]" demo_config "demo_net do_ok"]
  by blast

text \<open>
  The 400 for an invalid slot is not a JSON response: its content type is plain text.
\<close>

theorem invalid_slot_content_type_counterexample:
  "status (fst (freeClassHandler demo_db
        (GET ''/db/freeclass'' [(''slot'', ''abc''), (''day'', ''Mon'')]) newResponseWriter)) = 400
   \<and> Header_Get ''Content-Type'' (sent (fst (freeClassHandler demo_db
        (GET ''/db/freeclass'' [(''slot'', ''abc''), (''day'', ''Mon'')]) newResponseWriter)))
       = ''text/plain; charset=utf-8''
   \<and> Header_Get ''Content-Type'' (sent (fst (freeClassHandler demo_db
        (GET ''/db/freeclass'' [(''slot'', ''abc''), (''day'', ''Mon'')]) newResponseWriter)))
       \<noteq> ''application/json''"
  by (simp add: freeClassHandler_fresh http_Error_fresh GET_def Values_Get_def Atoi_abc Header_Get_def)


section \<open>Claims about absent query parameters\<close>

lemma exchange_first_event:
  "hd (snd (oauthExchangeHandler cfg net r w)) = TokenExchange (Context r) (Values_Get ''code'' (Query r))"
  by (simp add: oauthExchangeHandler_def Let_def split: sum.splits prod.splits)

text \<open>
  Claim C10, as the code has it. An absent query parameter is read as the empty
  string and the handler goes on: /oauth/exchange calls the token exchange with the
  empty code; /db/freeslot and /db/daytimetable call the database layer with the empty
  string for an absent \<^verbatim>\<open>class\<close> or \<^verbatim>\<open>day\<close> and answer with status 200 and the JSON
  serialization of the slice they get, which is a JSON array for a slice that is not
  nil and \<^verbatim>\<open>null\<close> for the nil slice. Of the three db handlers only /db/freeclass
  answers 400, exactly when \<^verbatim>\<open>strconv.Atoi\<close> rejects the slot, an absent slot
  included.
\<close>

theorem missing_parameters_are_empty:
  "(map_of (Query r) k = None \<longrightarrow> Values_Get k (Query r) = [])
   \<and> (map_of (Query r) ''code'' = None \<longrightarrow>
        hd (snd (oauthExchangeHandler cfg net r newResponseWriter)) = TokenExchange (Context r) [])
   \<and> (map_of (Query r) ''class'' = None \<longrightarrow>
        snd (freeSlotHandler db r newResponseWriter)
          = [CallGetFreeSlot [] (Values_Get ''day'' (Query r))]
        \<and> snd (dayTimetableHandler db r newResponseWriter)
          = [CallGetTimetableByDay [] (Values_Get ''day'' (Query r))])
   \<and> (map_of (Query r) ''day'' = None \<longrightarrow>
        snd (freeSlotHandler db r newResponseWriter)
          = [CallGetFreeSlot (Values_Get ''class'' (Query r)) []]
        \<and> snd (dayTimetableHandler db r newResponseWriter)
          = [CallGetTimetableByDay (Values_Get ''class'' (Query r)) []])
   \<and> status (fst (freeSlotHandler db r newResponseWriter)) = 200
   \<and> body (fst (freeSlotHandler db r newResponseWriter))
        = encodeArray FormatInt
            (GetFreeSlot db (Values_Get ''class'' (Query r)) (Values_Get ''day'' (Query r)))
   \<and> status (fst (dayTimetableHandler db r newResponseWriter)) = 200
   \<and> body (fst (dayTimetableHandler db r newResponseWriter))
        = encodeArray appendString
            (GetTimetableByDay db (Values_Get ''class'' (Query r)) (Values_Get ''day'' (Query r)))
   \<and> (status (fst (freeClassHandler db r newResponseWriter)) = 400)
        = (\<exists>e. Atoi (Values_Get ''slot'' (Query r)) = Inl e)
   \<and> (status (fst (freeClassHandler db r newResponseWriter)) = 200)
        = (\<exists>n. Atoi (Values_Get ''slot'' (Query r)) = Inr n)
   \<and> (map_of (Query r) ''slot'' = None \<longrightarrow>
        status (fst (freeClassHandler db r newResponseWriter)) = 400)
   \<and> encodeArray FormatInt (Slice ns) = ''['' @ joinWith '','' (map FormatInt ns) @ '']''
   \<and> encodeArray appendString (Slice xs) = ''['' @ joinWith '','' (map appendString xs) @ '']''
   \<and> encodeArray FormatInt NilSlice = ''null''
   \<and> encodeArray appendString NilSlice = ''null''"
proof -
  have fc: "(status (fst (freeClassHandler db r newResponseWriter)) = 400)
        = (\<exists>e. Atoi (Values_Get ''slot'' (Query r)) = Inl e)
      \<and> (status (fst (freeClassHandler db r newResponseWriter)) = 200)
        = (\<exists>n. Atoi (Values_Get ''slot'' (Query r)) = Inr n)
      \<and> (map_of (Query r) ''slot'' = None \<longrightarrow>
        status (fst (freeClassHandler db r newResponseWriter)) = 400)"
    by (auto simp add: freeClassHandler_fresh write_json_fresh http_Error_fresh Values_Get_def Atoi_empty
          split: sum.splits)
  show ?thesis
    using fc
    by (simp add: exchange_first_event freeSlotHandler_fresh dayTimetableHandler_fresh write_json_fresh
          Values_Get_def encodeArray_def)
qed

theorem missing_parameters_are_empty_witness:
  "map_of (Query (GET ''/db/freeslot'' [])) ''class'' = None
   \<and> map_of (Query (GET ''/db/freeslot'' [])) ''code'' = None
   \<and> hd (snd (oauthExchangeHandler demo_config (demo_net do_ok) (GET ''/db/freeslot'' []) newResponseWriter))
        = TokenExchange (Ctx 0) []
   \<and> snd (freeSlotHandler demo_db (GET ''/db/freeslot'' []) newResponseWriter) = [CallGetFreeSlot [] []]
   \<and> status (fst (freeSlotHandler demo_db (GET ''/db/freeslot'' []) newResponseWriter)) = 200
   \<and> status (fst (freeClassHandler demo_db (GET ''/db/freeslot'' []) newResponseWriter)) = 400"
proof -
  have h: "map_of (Query (GET ''/db/freeslot'' [])) ''class'' = None"
          "map_of (Query (GET ''/db/freeslot'' [])) ''code'' = None"
          "map_of (Query (GET ''/db/freeslot'' [])) ''slot'' = None"
          "Context (GET ''/db/freeslot'' []) = Ctx 0"
          "Values_Get ''day'' (Query (GET ''/db/freeslot'' [])) = []"
    by (simp_all add: GET_def Values_Get_def)
  from missing_parameters_are_empty
         [of "GET ''/db/freeslot'' []" "''class''" demo_config "demo_net do_ok" demo_db "[]" "[]"] h
  show ?thesis by simp
qed

text \<open>
  With both parameters absent and a database layer that finds nothing and returns the
  nil slice, /db/daytimetable answers 200 with the body \<^verbatim>\<open>null\<close>, which is no JSON
  array.
\<close>

theorem missing_parameters_null_counterexample:
  "status (fst (dayTimetableHandler demo_db (GET ''/db/daytimetable'' []) newResponseWriter)) = 200
   \<and> snd (dayTimetableHandler demo_db (GET ''/db/daytimetable'' []) newResponseWriter)
        = [CallGetTimetableByDay [] []]
   \<and> GetTimetableByDay demo_db [] [] = NilSlice
   \<and> body (fst (dayTimetableHandler demo_db (GET ''/db/daytimetable'' []) newResponseWriter)) = ''null''
   \<and> body (fst (dayTimetableHandler demo_db (GET ''/db/daytimetable'' []) newResponseWriter)) \<noteq> ''[]''"
  by (simp add: dayTimetableHandler_fresh write_json_fresh GET_def Values_Get_def demo_db_def
        encodeArray_def)

section \<open>The login redirect\<close>


























section \<open>Claim about /oauth/login\<close>




section \<open>Claim about start-up\<close>

lemma ServeHTTP_keeps_globals: "fst (ServeHTTP g wld r) = g"
  by (simp add: ServeHTTP_def split: option.splits)

lemma serve_keeps_globals: "fst (serve g reqs) = g \<and> length (snd (serve g reqs)) = length reqs"
proof (induction reqs arbitrary: g)
  case Nil
  show ?case by simp
next
  case (Cons a reqs)
  obtain wld r where a: "a = (wld, r)" by (cases a)
  obtain resp where s: "ServeHTTP g wld r = (g, resp)"
    using ServeHTTP_keeps_globals [of g wld r] by (cases "ServeHTTP g wld r") simp
  from Cons.IH [of g] show ?case
    by (auto simp add: a s split: prod.splits)
qed

text \<open>
  Claim C9. When the configuration file cannot be read, or \<^verbatim>\<open>json.Unmarshal\<close>
  rejects its content, the process exits with a diagnostic that names the failure,
  whatever requests are waiting: none is answered. Otherwise \<^verbatim>\<open>init\<close> stores the
  configuration built from the five parsed fields, and once the port is bound the
  global still holds that same configuration after any sequence of requests, each of
  which has been answered.
\<close>

theorem startup_then_fixed_config:
  "(ReadFile env configFile = Inl err \<longrightarrow>
       program env reqs = Exit (''Error reading JSON file:'' @ err))
   \<and> (ReadFile env configFile = Inr file \<and> Unmarshal env file = Inl err \<longrightarrow>
       program env reqs = Exit (''Error unmarshalling JSON:'' @ err))
   \<and> (ReadFile env configFile = Inr file \<and> Unmarshal env file = Inr jsonData \<longrightarrow>
       init env \<lparr>oauthConfig = None\<rparr> = Continue
         \<lparr>oauthConfig = Some
            \<lparr>ClientID = jsonClientID jsonData, ClientSecret = jsonClientSecret jsonData,
             RedirectURL = jsonRedirectURL jsonData, Scopes = jsonScopes jsonData,
             Endpoint = AzureADEndpoint (jsonTenant jsonData)\<rparr>\<rparr>)
   \<and> (ReadFile env configFile = Inr file \<and> Unmarshal env file = Inr jsonData
        \<and> Listen env port = None \<longrightarrow>
       program env reqs = Serving
         \<lparr>oauthConfig = Some
            \<lparr>ClientID = jsonClientID jsonData, ClientSecret = jsonClientSecret jsonData,
             RedirectURL = jsonRedirectURL jsonData, Scopes = jsonScopes jsonData,
             Endpoint = AzureADEndpoint (jsonTenant jsonData)\<rparr>\<rparr>
         (snd (serve
           \<lparr>oauthConfig = Some
            \<lparr>ClientID = jsonClientID jsonData, ClientSecret = jsonClientSecret jsonData,
             RedirectURL = jsonRedirectURL jsonData, Scopes = jsonScopes jsonData,
             Endpoint = AzureADEndpoint (jsonTenant jsonData)\<rparr>\<rparr> reqs))
       \<and> fst (serve
           \<lparr>oauthConfig = Some
            \<lparr>ClientID = jsonClientID jsonData, ClientSecret = jsonClientSecret jsonData,
             RedirectURL = jsonRedirectURL jsonData, Scopes = jsonScopes jsonData,
             Endpoint = AzureADEndpoint (jsonTenant jsonData)\<rparr>\<rparr> reqs)
         = \<lparr>oauthConfig = Some
            \<lparr>ClientID = jsonClientID jsonData, ClientSecret = jsonClientSecret jsonData,
             RedirectURL = jsonRedirectURL jsonData, Scopes = jsonScopes jsonData,
             Endpoint = AzureADEndpoint (jsonTenant jsonData)\<rparr>\<rparr>
       \<and> length (snd (serve
           \<lparr>oauthConfig = Some
            \<lparr>ClientID = jsonClientID jsonData, ClientSecret = jsonClientSecret jsonData,
             RedirectURL = jsonRedirectURL jsonData, Scopes = jsonScopes jsonData,
             Endpoint = AzureADEndpoint (jsonTenant jsonData)\<rparr>\<rparr> reqs)) = length reqs)"
proof -
  let ?G = "\<lparr>oauthConfig = Some
            \<lparr>ClientID = jsonClientID jsonData, ClientSecret = jsonClientSecret jsonData,
             RedirectURL = jsonRedirectURL jsonData, Scopes = jsonScopes jsonData,
             Endpoint = AzureADEndpoint (jsonTenant jsonData)\<rparr>\<rparr>"
  have keep: "fst (serve ?G reqs) = ?G" and len: "length (snd (serve ?G reqs)) = length reqs"
    using serve_keeps_globals [of ?G reqs] by blast+
  have sv: "serve ?G reqs = (?G, snd (serve ?G reqs))"
    using keep by (metis prod.collapse)
  have i: "ReadFile env configFile = Inr file \<and> Unmarshal env file = Inr jsonData \<longrightarrow>
       init env \<lparr>oauthConfig = None\<rparr> = Continue ?G"
    by (simp add: init_def)
  have m: "Listen env port = None \<longrightarrow> main env ?G reqs = Serving ?G (snd (serve ?G reqs))"
    unfolding main_def using sv by (auto split: prod.splits)
  have ok: "ReadFile env configFile = Inr file \<and> Unmarshal env file = Inr jsonData
        \<and> Listen env port = None \<longrightarrow>
       program env reqs = Serving ?G (snd (serve ?G reqs))"
    using i m by (simp add: program_def)
  have bad: "(ReadFile env configFile = Inl err \<longrightarrow>
       program env reqs = Exit (''Error reading JSON file:'' @ err))
   \<and> (ReadFile env configFile = Inr file \<and> Unmarshal env file = Inl err \<longrightarrow>
       program env reqs = Exit (''Error unmarshalling JSON:'' @ err))"
    by (simp add: program_def init_def)
  from bad i ok keep len show ?thesis by blast
qed

theorem startup_then_fixed_config_witness:
  "ReadFile (demo_startup (Inl ''open ./config.json: permission denied'')) configFile
      = Inl ''open ./config.json: permission denied''
   \<and> program (demo_startup (Inl ''open ./config.json: permission denied''))
        [(demo_world, GET ''/db/freeslot'' [])]
      = Exit (''Error reading JSON file:'' @ ''open ./config.json: permission denied'')
   \<and> ReadFile (demo_startup (Inr ''{config''))  configFile = Inr ''{config''
   \<and> Unmarshal (demo_startup (Inr ''{config'')) ''{config'' = Inl ''invalid character in JSON''
   \<and> program (demo_startup (Inr ''{config'')) [(demo_world, GET ''/db/freeslot'' [])]
      = Exit (''Error unmarshalling JSON:'' @ ''invalid character in JSON'')
   \<and> ReadFile (demo_startup (Inr ''{config}''))  configFile = Inr ''{config}''
   \<and> Unmarshal (demo_startup (Inr ''{config}'')) ''{config}'' = Inr demo_repr
   \<and> Listen (demo_startup (Inr ''{config}'')) port = None
   \<and> program (demo_startup (Inr ''{config}'')) [(demo_world, GET ''/db/freeslot'' [])]
      = Serving \<lparr>oauthConfig = Some
            \<lparr>ClientID = jsonClientID demo_repr, ClientSecret = jsonClientSecret demo_repr,
                 RedirectURL = jsonRedirectURL demo_repr, Scopes = jsonScopes demo_repr,
                 Endpoint = AzureADEndpoint (jsonTenant demo_repr)\<rparr>\<rparr>
          (snd (serve \<lparr>oauthConfig = Some
            \<lparr>ClientID = jsonClientID demo_repr, ClientSecret = jsonClientSecret demo_repr,
                 RedirectURL = jsonRedirectURL demo_repr, Scopes = jsonScopes demo_repr,
                 Endpoint = AzureADEndpoint (jsonTenant demo_repr)\<rparr>\<rparr> [(demo_world, GET ''/db/freeslot'' [])]))"
proof -
  have a: "ReadFile (demo_startup (Inl ''open ./config.json: permission denied'')) configFile
      = Inl ''open ./config.json: permission denied''"
    by (simp add: demo_startup_def configFile_def)
  have b: "ReadFile (demo_startup (Inr ''{config''))  configFile = Inr ''{config''
       \<and> Unmarshal (demo_startup (Inr ''{config'')) ''{config'' = Inl ''invalid character in JSON''"
    by (simp add: demo_startup_def configFile_def)
  have c: "ReadFile (demo_startup (Inr ''{config}''))  configFile = Inr ''{config}''
       \<and> Unmarshal (demo_startup (Inr ''{config}'')) ''{config}'' = Inr demo_repr
       \<and> Listen (demo_startup (Inr ''{config}'')) port = None"
    by (simp add: demo_startup_def configFile_def)
  from startup_then_fixed_config
         [of "demo_startup (Inl ''open ./config.json: permission denied'')"
             "''open ./config.json: permission denied''" "[(demo_world, GET ''/db/freeslot'' [])]"] a
  have a': "program (demo_startup (Inl ''open ./config.json: permission denied''))
        [(demo_world, GET ''/db/freeslot'' [])]
      = Exit (''Error reading JSON file:'' @ ''open ./config.json: permission denied'')"
    by blast
  from startup_then_fixed_config
         [of "demo_startup (Inr ''{config'')" "''invalid character in JSON''"
             "[(demo_world, GET ''/db/freeslot'' [])]" "''{config''"] b
  have b': "program (demo_startup (Inr ''{config'')) [(demo_world, GET ''/db/freeslot'' [])]
      = Exit (''Error unmarshalling JSON:'' @ ''invalid character in JSON'')"
    by blast
  from startup_then_fixed_config
         [of "demo_startup (Inr ''{config}'')" _ "[(demo_world, GET ''/db/freeslot'' [])]"
             "''{config}''" demo_repr] c
  have c': "program (demo_startup (Inr ''{config}'')) [(demo_world, GET ''/db/freeslot'' [])]
      = Serving \<lparr>oauthConfig = Some
            \<lparr>ClientID = jsonClientID demo_repr, ClientSecret = jsonClientSecret demo_repr,
                 RedirectURL = jsonRedirectURL demo_repr, Scopes = jsonScopes demo_repr,
                 Endpoint = AzureADEndpoint (jsonTenant demo_repr)\<rparr>\<rparr>
          (snd (serve \<lparr>oauthConfig = Some
            \<lparr>ClientID = jsonClientID demo_repr, ClientSecret = jsonClientSecret demo_repr,
                 RedirectURL = jsonRedirectURL demo_repr, Scopes = jsonScopes demo_repr,
                 Endpoint = AzureADEndpoint (jsonTenant demo_repr)\<rparr>\<rparr> [(demo_world, GET ''/db/freeslot'' [])]))"
    by blast
  from a a' b b' c c' show ?thesis by blast
qed

end
